theory Spec2Isabelle
  imports Main "HOL-Library.Sublist"
begin

section \<open>Data model\<close>

text \<open>
  The command line interface of DOPtools (\<^verbatim>\<open>doptools/cli/main.py\<close>) drives pandas and the
  descriptor calculators of \<^verbatim>\<open>doptools.chem\<close>. Scalars of a table are strings, integers or
  the missing value; a data frame is stored column by column, as pandas does, each column
  a name with its values. Every frame carries the default positional index
  \<open>0..nrows-1\<close> (\<^verbatim>\<open>read_csv\<close> without \<^verbatim>\<open>index_col\<close>, and calculators fed a plain list).
\<close>

datatype cell = S string | I int | NaN

record frame =
  nrows :: nat
  cols :: "(string \<times> cell list) list"

definition columns :: "frame \<Rightarrow> string list" where
  "columns df = map fst (cols df)"

datatype json =
    JNull
  | JBool bool
  | JInt int
  | JStr string
  | JList "json list"
  | JObj "(string \<times> json) list"

section \<open>The process: files, standard output, argument vector\<close>

text \<open>
  The calls a command makes to its collaborators are recorded, in order, in \<open>trace\<close>.
  Python lists are objects: \<open>heap\<close> holds the list objects by address and \<open>sys_argv\<close>
  is the address \<^verbatim>\<open>sys.argv\<close> is bound to.
\<close>

datatype event =
    EvReadCsv string string
  | EvJsonLoad string
  | EvPickleLoad string
  | EvNew string
  | EvFit "cell list"
  | EvTransform "cell list"
  | EvTransformFrame frame
  | EvToCsv string
  | EvColorAtom
  | EvExplain string
  | EvSavefig string
  | EvShow
  | EvJsonDump string
  | EvImport string

record world =
  files :: "string \<Rightarrow> string option"
  stdout :: "string list"
  trace :: "event list"
  heap :: "string list list"
  sys_argv :: nat

text \<open>
  An action runs in a world and either raises (\<open>Inl\<close> of the text \<^verbatim>\<open>str(e)\<close> of the
  exception) or returns a value.
\<close>

type_synonym 'a action = "world \<Rightarrow> (string + 'a) \<times> world"

definition ret :: "'a \<Rightarrow> 'a action" where
  "ret x = (\<lambda>w. (Inr x, w))"

definition raise :: "string \<Rightarrow> 'a action" where
  "raise e = (\<lambda>w. (Inl e, w))"

definition andthen :: "'a action \<Rightarrow> ('a \<Rightarrow> 'b action) \<Rightarrow> 'b action" where
  "andthen m f = (\<lambda>w. case m w of (Inl e, w') \<Rightarrow> (Inl e, w') | (Inr x, w') \<Rightarrow> f x w')"

definition lift :: "string + 'a \<Rightarrow> 'a action" where
  "lift r = (\<lambda>w. (r, w))"

definition echo :: "string \<Rightarrow> unit action" where
  "echo s = (\<lambda>w. (Inr (), w\<lparr>stdout := stdout w @ [s]\<rparr>))"

definition whenever :: "bool \<Rightarrow> unit action \<Rightarrow> unit action" where
  "whenever b m = (if b then m else ret ())"

text \<open>A call to a collaborator: it may read the files, and it is recorded.\<close>

definition call :: "event \<Rightarrow> ((string \<Rightarrow> string option) \<Rightarrow> string + 'a) \<Rightarrow> 'a action" where
  "call ev f = (\<lambda>w. (f (files w), w\<lparr>trace := trace w @ [ev]\<rparr>))"

text \<open>
  \<^verbatim>\<open>except Exception as e: raise click.ClickException(f"<what>: {str(e)}")\<close>.
  A \<^verbatim>\<open>ClickException\<close> ends the process with exit code 1 after printing its message.
\<close>

datatype outcome = Returned | ClickException string

fun exit_code :: "outcome \<Rightarrow> nat" where
  "exit_code Returned = 0"
| "exit_code (ClickException _) = 1"

definition click_command :: "string \<Rightarrow> unit action \<Rightarrow> world \<Rightarrow> outcome \<times> world" where
  "click_command what body w =
     (case body w of
        (Inl e, w') \<Rightarrow> (ClickException (what @ '': '' @ e), w')
      | (Inr _, w') \<Rightarrow> (Returned, w'))"

subsection \<open>List objects\<close>

definition argv :: "world \<Rightarrow> string list" where
  "argv w = heap w ! sys_argv w"

definition get_sys_argv :: "nat action" where
  "get_sys_argv = (\<lambda>w. (Inr (sys_argv w), w))"

definition set_sys_argv :: "nat \<Rightarrow> unit action" where
  "set_sys_argv r = (\<lambda>w. (Inr (), w\<lparr>sys_argv := r\<rparr>))"

definition new_list :: "string list \<Rightarrow> nat action" where
  "new_list xs = (\<lambda>w. (Inr (length (heap w)), w\<lparr>heap := heap w @ [xs]\<rparr>))"

definition list_extend :: "nat \<Rightarrow> string list \<Rightarrow> unit action" where
  "list_extend r xs = (\<lambda>w. (Inr (), w\<lparr>heap := (heap w)[r := heap w ! r @ xs]\<rparr>))"

text \<open>Truth value of an optional string option of click: \<^verbatim>\<open>None\<close> and \<^verbatim>\<open>""\<close> are false.\<close>

fun truthy :: "string option \<Rightarrow> bool" where
  "truthy None = False"
| "truthy (Some s) = (s \<noteq> [])"

section \<open>The commands that delegate through the argument vector\<close>

definition optimize_body :: "string \<Rightarrow> bool \<Rightarrow> unit action" where
  "optimize_body config_file verbose =
     andthen (whenever verbose
        (echo (''Loading optimization configuration from '' @ config_file @ ''...''))) (\<lambda>_.
     andthen get_sys_argv (\<lambda>original_argv.
     andthen (new_list [''launch_optimizer'', ''--config'', config_file]) (\<lambda>r.
     andthen (set_sys_argv r) (\<lambda>_.
     andthen (whenever verbose
        (andthen get_sys_argv (\<lambda>cur. list_extend cur [''--verbose'']))) (\<lambda>_.
     andthen (echo ''Optimization functionality to be implemented'') (\<lambda>_.
     set_sys_argv original_argv))))))"

definition optimize :: "string \<Rightarrow> bool \<Rightarrow> world \<Rightarrow> outcome \<times> world" where
  "optimize config_file verbose =
     click_command ''Error during model optimization'' (optimize_body config_file verbose)"

definition rebuild_body :: "string \<Rightarrow> string \<Rightarrow> bool \<Rightarrow> unit action" where
  "rebuild_body input_dir output_dir verbose =
     andthen (whenever verbose
        (echo (''Rebuilding models from '' @ input_dir @ ''...''))) (\<lambda>_.
     andthen get_sys_argv (\<lambda>original_argv.
     andthen (new_list [''rebuilder'', ''--input'', input_dir, ''--output'', output_dir]) (\<lambda>r.
     andthen (set_sys_argv r) (\<lambda>_.
     andthen (whenever verbose
        (andthen get_sys_argv (\<lambda>cur. list_extend cur [''--verbose'']))) (\<lambda>_.
     andthen (echo ''Model rebuilding functionality to be implemented'') (\<lambda>_.
     set_sys_argv original_argv))))))"

definition rebuild :: "string \<Rightarrow> string \<Rightarrow> bool \<Rightarrow> world \<Rightarrow> outcome \<times> world" where
  "rebuild input_dir output_dir verbose =
     click_command ''Error during model rebuilding'' (rebuild_body input_dir output_dir verbose)"

datatype plot_type = scatter | histogram | correlation

fun plot_type_name :: "plot_type \<Rightarrow> string" where
  "plot_type_name scatter = ''scatter''"
| "plot_type_name histogram = ''histogram''"
| "plot_type_name correlation = ''correlation''"

record plot_args =
  plot_input_file :: string
  plot_kind :: plot_type
  x_column :: "string option"
  y_column :: "string option"
  plot_output_file :: "string option"
  plot_show :: bool

definition plot_body :: "plot_args \<Rightarrow> unit action" where
  "plot_body a =
     andthen get_sys_argv (\<lambda>original_argv.
     andthen (new_list [''plotter'', ''--input'', plot_input_file a,
                        ''--type'', plot_type_name (plot_kind a)]) (\<lambda>args.
     andthen (whenever (truthy (x_column a))
        (list_extend args [''--x-column'', the (x_column a)])) (\<lambda>_.
     andthen (whenever (truthy (y_column a))
        (list_extend args [''--y-column'', the (y_column a)])) (\<lambda>_.
     andthen (whenever (truthy (plot_output_file a))
        (list_extend args [''--output'', the (plot_output_file a)])) (\<lambda>_.
     andthen (whenever (plot_show a) (list_extend args [''--show''])) (\<lambda>_.
     andthen (set_sys_argv args) (\<lambda>_.
     andthen (echo ''Plotting functionality to be implemented'') (\<lambda>_.
     set_sys_argv original_argv))))))))"

definition plot :: "plot_args \<Rightarrow> world \<Rightarrow> outcome \<times> world" where
  "plot a = click_command ''Error generating plot'' (plot_body a)"

section \<open>Text written by pandas\<close>

fun str_nat :: "nat \<Rightarrow> string" where
  "str_nat n = (if n < 10 then [''0123456789'' ! n]
                else str_nat (n div 10) @ [''0123456789'' ! (n mod 10)])"

definition str_int :: "int \<Rightarrow> string" where
  "str_int i = (if i < 0 then ''-'' @ str_nat (nat (- i)) else str_nat (nat i))"

text \<open>
  \<^verbatim>\<open>DataFrame.to_csv(path, index=False)\<close> with its defaults: a header line, the comma as
  delimiter, a line feed after every record, the missing value as the empty field, and the
  minimal quoting of the \<^verbatim>\<open>csv\<close> writer of Python 3.11 (a field holding the delimiter,
  the quote or a character of the line terminator, here the line feed, is quoted, its
  quotes doubled; a record of one empty field is written as two quotes). Floating-point
  scalars are outside this model: where pandas holds a column as \<^verbatim>\<open>float64\<close> it writes
  \<^verbatim>\<open>1.0\<close> for what is written \<^verbatim>\<open>1\<close> here.
\<close>

definition cell_text :: "cell \<Rightarrow> string" where
  "cell_text c = (case c of S s \<Rightarrow> s | I i \<Rightarrow> str_int i | NaN \<Rightarrow> [])"

definition csv_special :: "char \<Rightarrow> bool" where
  "csv_special c = (c = CHR '','' \<or> c = CHR 0x22 \<or> c = CHR 0x0A)"

definition csv_field :: "string \<Rightarrow> string" where
  "csv_field s =
     (if list_ex csv_special s
      then [CHR 0x22] @ concat (map (\<lambda>c. if c = CHR 0x22 then [c, c] else [c]) s) @ [CHR 0x22]
      else s)"

fun csv_join :: "string list \<Rightarrow> string" where
  "csv_join [] = []"
| "csv_join [x] = x"
| "csv_join (x # y # zs) = x @ '','' @ csv_join (y # zs)"

definition csv_record :: "string list \<Rightarrow> string" where
  "csv_record rec =
     (if rec = [[]] then [CHR 0x22, CHR 0x22] else csv_join (map csv_field rec))
     @ [CHR 0x0A]"

definition cell_at :: "cell list \<Rightarrow> nat \<Rightarrow> cell" where
  "cell_at vs i = (if i < length vs then vs ! i else NaN)"

definition frame_row :: "frame \<Rightarrow> nat \<Rightarrow> string list" where
  "frame_row df i = map (\<lambda>(n, vs). cell_text (cell_at vs i)) (cols df)"

definition to_csv_text :: "frame \<Rightarrow> string" where
  "to_csv_text df = concat (map csv_record (columns df # map (frame_row df) [0..<nrows df]))"

section \<open>Frame operations used by the commands\<close>

text \<open>
  \<^verbatim>\<open>df[c]\<close>: the column named \<open>c\<close>. A missing name is a \<^verbatim>\<open>KeyError\<close>, whose text is
  the quoted name; a name that occurs more than once selects a frame, not a column, and the
  use the commands make of it (\<^verbatim>\<open>.tolist()\<close>, the value of \<^verbatim>\<open>insert\<close>) raises. Tables
  read by \<^verbatim>\<open>read_csv\<close> have distinct column names, so the wording of that last error is
  of no consequence and is not that of pandas.
\<close>

definition getcol :: "frame \<Rightarrow> string \<Rightarrow> string + cell list" where
  "getcol df c =
     (case filter (\<lambda>(n, vs). n = c) (cols df) of
        [] \<Rightarrow> Inl ([CHR 0x27] @ c @ [CHR 0x27])
      | [(n, vs)] \<Rightarrow> Inr vs
      | _ \<Rightarrow> Inl ''a selection of several columns is not one-dimensional'')"

text \<open>
  A column given as a \<^verbatim>\<open>Series\<close> is aligned with the index of the receiving frame:
  with positional indexes, labels beyond the series are missing values and labels beyond
  the frame are dropped.
\<close>

definition reindex :: "cell list \<Rightarrow> nat \<Rightarrow> cell list" where
  "reindex vs n = take n vs @ replicate (n - length vs) NaN"

text \<open>\<^verbatim>\<open>frame.insert(0, 'ID', values)\<close>; pandas refuses a name the frame already has.\<close>

definition insert_ID :: "frame \<Rightarrow> cell list \<Rightarrow> string + frame" where
  "insert_ID d vs =
     (if ''ID'' \<in> set (columns d) then Inl ''cannot insert ID, already exists''
      else Inr (d\<lparr>cols := (''ID'', vs) # cols d\<rparr>))"

definition range_cells :: "nat \<Rightarrow> cell list" where
  "range_cells n = map (\<lambda>i. I (int i)) [0..<n]"

section \<open>Collaborators\<close>

text \<open>
  What the commands call and this file does not contain: the parsers of pandas, json and
  pickle, the file system's refusal to write, the descriptor calculators and the atom
  colouring of \<^verbatim>\<open>doptools.chem\<close>, the figure, the import system. A calculator object is a
  value of type \<open>'d\<close>; \<^verbatim>\<open>fit\<close> changes the object, so it returns the changed object. Each
  collaborator either raises, with the text of its exception, or returns. Keyword
  arguments a call leaves out are \<open>None\<close>.
\<close>

datatype fp_type = morgan | atompairs | torsion | rdkfp | avalon

fun fp_type_name :: "fp_type \<Rightarrow> string" where
  "fp_type_name morgan = ''morgan''"
| "fp_type_name atompairs = ''atompairs''"
| "fp_type_name torsion = ''torsion''"
| "fp_type_name rdkfp = ''rdkfp''"
| "fp_type_name avalon = ''avalon''"

datatype import_result = Imported | ImportError string | OtherError string

record ('d, 'm, 'c, 'f) env =
  read_csv :: "(string \<Rightarrow> string option) \<Rightarrow> string \<Rightarrow> string \<Rightarrow> string + frame"
  json_load :: "(string \<Rightarrow> string option) \<Rightarrow> string \<Rightarrow> string + json"
  pickle_load :: "(string \<Rightarrow> string option) \<Rightarrow> string \<Rightarrow> string + 'm"
  write_error :: "(string \<Rightarrow> string option) \<Rightarrow> string \<Rightarrow> string option"
  ChythonCircus :: "int \<Rightarrow> int \<Rightarrow> bool option \<Rightarrow> string \<Rightarrow> string + 'd"
  Fingerprinter :: "fp_type \<Rightarrow> int \<Rightarrow> int option \<Rightarrow> string \<Rightarrow> string + 'd"
  ComplexFragmentor :: "json \<Rightarrow> string + 'd"
  fit :: "'d \<Rightarrow> cell list \<Rightarrow> string + 'd"
  transform :: "'d \<Rightarrow> cell list \<Rightarrow> string + frame"
  transform_frame :: "'d \<Rightarrow> frame \<Rightarrow> string + frame"
  ColorAtom :: "'m \<Rightarrow> 'd \<Rightarrow> string + 'c"
  explain :: "'c \<Rightarrow> string \<Rightarrow> string + 'f"
  savefig :: "'f \<Rightarrow> string \<Rightarrow> string + string"
  fig_show :: "'f \<Rightarrow> string option"
  import_module :: "string \<Rightarrow> import_result"
  module_version :: "string \<Rightarrow> string"
  doptools_version :: "string option"
  python_version :: string
  platform_text :: string

text \<open>
  Writing a file: refused by the file system with an error and no file made, or the whole
  text stored under the path.
\<close>

definition write_file :: "('d, 'm, 'c, 'f) env \<Rightarrow> string \<Rightarrow> string \<Rightarrow> unit action" where
  "write_file env path text =
     (\<lambda>w. case write_error env (files w) path of
             Some e \<Rightarrow> (Inl e, w)
           | None \<Rightarrow> (Inr (), w\<lparr>files := (files w)(path \<mapsto> text)\<rparr>))"

definition to_csv :: "('d, 'm, 'c, 'f) env \<Rightarrow> frame \<Rightarrow> string \<Rightarrow> unit action" where
  "to_csv env df path =
     andthen (call (EvToCsv path) (\<lambda>fs. Inr (to_csv_text df))) (\<lambda>text.
     write_file env path text)"

section \<open>The descriptor commands\<close>

record io_args =
  input_file :: string
  output_file :: string
  separator :: string
  verbose :: bool

record table_args = io_args +
  smiles_column :: string
  id_column :: string

record circus_args = table_args +
  lower :: int
  upper :: int
  on_bond :: bool

record rdkit_args = table_args +
  fp_kind :: fp_type
  nbits :: int
  radius :: int

record complex_args = io_args +
  config_file :: string

text \<open>The part both single-column commands share: \<^verbatim>\<open># Add IDs if available\<close>.\<close>

definition add_ids :: "frame \<Rightarrow> string \<Rightarrow> frame \<Rightarrow> string + frame" where
  "add_ids df id_col descriptors =
     (if id_col \<in> set (columns df)
      then (case getcol df id_col of
              Inl e \<Rightarrow> Inl e
            | Inr ids \<Rightarrow> insert_ID descriptors (reindex ids (nrows descriptors)))
      else insert_ID descriptors (range_cells (nrows descriptors)))"

definition circus_body :: "('d, 'm, 'c, 'f) env \<Rightarrow> circus_args \<Rightarrow> unit action" where
  "circus_body env a =
     andthen (whenever (verbose a)
        (echo (''Loading data from '' @ input_file a @ ''...''))) (\<lambda>_.
     andthen (call (EvReadCsv (input_file a) (separator a))
        (\<lambda>fs. read_csv env fs (input_file a) (separator a))) (\<lambda>df.
     andthen (if smiles_column a \<notin> set (columns df)
        then raise (''Column '' @ [CHR 0x27] @ smiles_column a @ [CHR 0x27]
                    @ '' not found in input file'')
        else ret ()) (\<lambda>_.
     andthen (whenever (verbose a)
        (andthen (echo (''Loaded '' @ str_nat (nrows df) @ '' molecules'')) (\<lambda>_.
         echo (''Calculating CircuS descriptors (radius '' @ str_int (lower a) @ ''-''
               @ str_int (upper a) @ '')...'')))) (\<lambda>_.
     andthen (call (EvNew ''ChythonCircus'')
        (\<lambda>fs. ChythonCircus env (lower a) (upper a) (Some (on_bond a)) ''smiles'')) (\<lambda>circus_calc.
     andthen (lift (getcol df (smiles_column a))) (\<lambda>smiles_data.
     andthen (call (EvFit smiles_data) (\<lambda>fs. fit env circus_calc smiles_data)) (\<lambda>fitted.
     andthen (call (EvTransform smiles_data)
        (\<lambda>fs. transform env fitted smiles_data)) (\<lambda>descriptors.
     andthen (lift (add_ids df (id_column a) descriptors)) (\<lambda>descriptors.
     andthen (to_csv env descriptors (output_file a)) (\<lambda>_.
     whenever (verbose a)
        (andthen (echo (''Calculated '' @ str_int (int (length (cols descriptors)) - 1)
                        @ '' descriptors'')) (\<lambda>_.
         echo (''Results saved to '' @ output_file a)))))))))))))"

definition circus :: "('d, 'm, 'c, 'f) env \<Rightarrow> circus_args \<Rightarrow> world \<Rightarrow> outcome \<times> world" where
  "circus env a = click_command ''Error calculating CircuS descriptors'' (circus_body env a)"

text \<open>
  \<^verbatim>\<open>rdkit\<close> does not call \<^verbatim>\<open>fit\<close>. \<^verbatim>\<open>pd.DataFrame(descriptors)\<close> is the table the
  fingerprinter returned.
\<close>

definition rdkit_body :: "('d, 'm, 'c, 'f) env \<Rightarrow> rdkit_args \<Rightarrow> unit action" where
  "rdkit_body env a =
     andthen (whenever (verbose a)
        (echo (''Loading data from '' @ input_file a @ ''...''))) (\<lambda>_.
     andthen (call (EvReadCsv (input_file a) (separator a))
        (\<lambda>fs. read_csv env fs (input_file a) (separator a))) (\<lambda>df.
     andthen (if smiles_column a \<notin> set (columns df)
        then raise (''Column '' @ [CHR 0x27] @ smiles_column a @ [CHR 0x27]
                    @ '' not found in input file'')
        else ret ()) (\<lambda>_.
     andthen (whenever (verbose a)
        (andthen (echo (''Loaded '' @ str_nat (nrows df) @ '' molecules'')) (\<lambda>_.
         echo (''Calculating '' @ fp_type_name (fp_kind a) @ '' descriptors...'')))) (\<lambda>_.
     andthen (call (EvNew ''Fingerprinter'')
        (\<lambda>fs. Fingerprinter env (fp_kind a) (nbits a) (Some (radius a)) ''smiles'')) (\<lambda>fingerprinter.
     andthen (lift (getcol df (smiles_column a))) (\<lambda>smiles_data.
     andthen (call (EvTransform smiles_data)
        (\<lambda>fs. transform env fingerprinter smiles_data)) (\<lambda>desc_df.
     andthen (lift (add_ids df (id_column a) desc_df)) (\<lambda>desc_df.
     andthen (to_csv env desc_df (output_file a)) (\<lambda>_.
     whenever (verbose a)
        (andthen (echo (''Calculated '' @ str_int (int (length (cols desc_df)) - 1)
                        @ '' descriptors'')) (\<lambda>_.
         echo (''Results saved to '' @ output_file a))))))))))))"

definition rdkit :: "('d, 'm, 'c, 'f) env \<Rightarrow> rdkit_args \<Rightarrow> world \<Rightarrow> outcome \<times> world" where
  "rdkit env a = click_command ''Error calculating RDKit descriptors'' (rdkit_body env a)"

text \<open>
  \<^verbatim>\<open>complex\<close> has no column options: the configuration goes to the constructor whole, the
  loaded table goes to \<^verbatim>\<open>transform\<close> whole, and what comes back is written as it is.
\<close>

definition complex_body :: "('d, 'm, 'c, 'f) env \<Rightarrow> complex_args \<Rightarrow> unit action" where
  "complex_body env a =
     andthen (whenever (verbose a)
        (echo (''Loading configuration from '' @ config_file a @ ''...''))) (\<lambda>_.
     andthen (call (EvJsonLoad (config_file a))
        (\<lambda>fs. json_load env fs (config_file a))) (\<lambda>config.
     andthen (whenever (verbose a)
        (echo (''Loading data from '' @ input_file a @ ''...''))) (\<lambda>_.
     andthen (call (EvReadCsv (input_file a) (separator a))
        (\<lambda>fs. read_csv env fs (input_file a) (separator a))) (\<lambda>df.
     andthen (whenever (verbose a)
        (andthen (echo (''Loaded '' @ str_nat (nrows df) @ '' rows'')) (\<lambda>_.
         echo ''Setting up ComplexFragmentor...''))) (\<lambda>_.
     andthen (call (EvNew ''ComplexFragmentor'')
        (\<lambda>fs. ComplexFragmentor env config)) (\<lambda>fragmentor.
     andthen (call (EvTransformFrame df)
        (\<lambda>fs. transform_frame env fragmentor df)) (\<lambda>descriptors.
     andthen (to_csv env descriptors (output_file a)) (\<lambda>_.
     whenever (verbose a)
        (andthen (echo (''Calculated '' @ str_nat (length (cols descriptors))
                        @ '' total descriptors'')) (\<lambda>_.
         echo (''Results saved to '' @ output_file a)))))))))))"

definition complex :: "('d, 'm, 'c, 'f) env \<Rightarrow> complex_args \<Rightarrow> world \<Rightarrow> outcome \<times> world" where
  "complex env a = click_command ''Error calculating complex descriptors'' (complex_body env a)"

section \<open>Atom colouring\<close>

datatype descriptor_type = dt_circus | dt_morgan | dt_rdkfp

record coloratom_args =
  model_file :: string
  smiles :: string
  descriptor_kind :: descriptor_type
  image_file :: "string option"
  show_flag :: bool

text \<open>
  Only the \<^verbatim>\<open>circus\<close> branch calls \<^verbatim>\<open>fit\<close>; the two fingerprint branches construct
  and go on. The image is saved before the figure is shown.
\<close>

definition coloratom_body :: "('d, 'm, 'c, 'f) env \<Rightarrow> coloratom_args \<Rightarrow> unit action" where
  "coloratom_body env a =
     andthen (call (EvPickleLoad (model_file a))
        (\<lambda>fs. pickle_load env fs (model_file a))) (\<lambda>model.
     andthen (echo (''Analyzing SMILES: '' @ smiles a)) (\<lambda>_.
     andthen (case descriptor_kind a of
          dt_circus \<Rightarrow>
            andthen (call (EvNew ''ChythonCircus'')
               (\<lambda>fs. ChythonCircus env 0 3 None ''smiles'')) (\<lambda>descriptor.
            call (EvFit [S (smiles a)]) (\<lambda>fs. fit env descriptor [S (smiles a)]))
        | dt_morgan \<Rightarrow>
            call (EvNew ''Fingerprinter'') (\<lambda>fs. Fingerprinter env morgan 1024 None ''smiles'')
        | dt_rdkfp \<Rightarrow>
            call (EvNew ''Fingerprinter'') (\<lambda>fs. Fingerprinter env rdkfp 1024 None ''smiles''))
        (\<lambda>descriptor.
     andthen (call EvColorAtom (\<lambda>fs. ColorAtom env model descriptor)) (\<lambda>coloratom.
     andthen (call (EvExplain (smiles a)) (\<lambda>fs. explain env coloratom (smiles a))) (\<lambda>fig.
     andthen (whenever (truthy (image_file a))
        (andthen (call (EvSavefig (the (image_file a)))
            (\<lambda>fs. savefig env fig (the (image_file a)))) (\<lambda>image.
         andthen (write_file env (the (image_file a)) image) (\<lambda>_.
         echo (''Visualization saved to '' @ the (image_file a)))))) (\<lambda>_.
     whenever (show_flag a)
        (call EvShow (\<lambda>fs. case fig_show env fig of None \<Rightarrow> Inr () | Some e \<Rightarrow> Inl e))))))))"

definition coloratom ::
  "('d, 'm, 'c, 'f) env \<Rightarrow> coloratom_args \<Rightarrow> world \<Rightarrow> outcome \<times> world" where
  "coloratom env a =
     click_command ''Error creating ColorAtom visualization'' (coloratom_body env a)"

section \<open>Configuration files\<close>

text \<open>
  \<^verbatim>\<open>json.dump(config, f, indent=2)\<close>: members in insertion order, one per line, two
  spaces deeper per level, \<^verbatim>\<open>", "\<close> never used, \<^verbatim>\<open>": "\<close> after a key, empty containers
  closed at once, strings escaped to ASCII.
\<close>

definition hex4 :: "nat \<Rightarrow> string" where
  "hex4 n = [''0123456789abcdef'' ! (n div 4096 mod 16), ''0123456789abcdef'' ! (n div 256 mod 16),
             ''0123456789abcdef'' ! (n div 16 mod 16), ''0123456789abcdef'' ! (n mod 16)]"

definition json_char :: "char \<Rightarrow> string" where
  "json_char c =
     (if c = CHR 0x22 then [CHR 0x5C, CHR 0x22]
      else if c = CHR 0x5C then [CHR 0x5C, CHR 0x5C]
      else if c = CHR 0x0A then [CHR 0x5C, CHR ''n'']
      else if c = CHR 0x0D then [CHR 0x5C, CHR ''r'']
      else if c = CHR 0x09 then [CHR 0x5C, CHR ''t'']
      else if c = CHR 0x08 then [CHR 0x5C, CHR ''b'']
      else if c = CHR 0x0C then [CHR 0x5C, CHR ''f'']
      else if (of_char c :: nat) < 32 \<or> 126 < (of_char c :: nat)
        then [CHR 0x5C, CHR ''u''] @ hex4 (of_char c)
      else [c])"

definition json_string :: "string \<Rightarrow> string" where
  "json_string s = [CHR 0x22] @ concat (map json_char s) @ [CHR 0x22]"

definition pad :: "nat \<Rightarrow> string" where
  "pad n = replicate n CHR '' ''"

fun join_lines :: "nat \<Rightarrow> string list \<Rightarrow> string" where
  "join_lines n [] = []"
| "join_lines n [x] = pad n @ x"
| "join_lines n (x # y # zs) = pad n @ x @ '','' @ [CHR 0x0A] @ join_lines n (y # zs)"

fun dumps :: "nat \<Rightarrow> json \<Rightarrow> string" where
  "dumps n JNull = ''null''"
| "dumps n (JBool b) = (if b then ''true'' else ''false'')"
| "dumps n (JInt i) = str_int i"
| "dumps n (JStr s) = json_string s"
| "dumps n (JList xs) =
     (if xs = [] then ''[]''
      else ''['' @ [CHR 0x0A] @ join_lines (n + 2) (map (\<lambda>x. dumps (n + 2) x) xs)
           @ [CHR 0x0A] @ pad n @ '']'')"
| "dumps n (JObj kvs) =
     (if kvs = [] then ''{}''
      else ''{'' @ [CHR 0x0A]
           @ join_lines (n + 2)
               (map (\<lambda>kv. json_string (fst kv) @ '': '' @ dumps (n + 2) (snd kv)) kvs)
           @ [CHR 0x0A] @ pad n @ ''}'')"

datatype config_type = cfg_circus | cfg_rdkit | cfg_complex

fun config_type_name :: "config_type \<Rightarrow> string" where
  "config_type_name cfg_circus = ''circus''"
| "config_type_name cfg_rdkit = ''rdkit''"
| "config_type_name cfg_complex = ''complex''"

fun init_config :: "config_type \<Rightarrow> json" where
  "init_config cfg_circus =
     JObj [(''name'', JStr ''CircuS Descriptors''),
           (''description'', JStr ''Basic CircuS molecular descriptors''),
           (''descriptor'', JObj [(''type'', JStr ''circus''), (''lower'', JInt 0),
                                  (''upper'', JInt 3), (''on_bond'', JBool False),
                                  (''fmt'', JStr ''smiles'')])]"
| "init_config cfg_rdkit =
     JObj [(''name'', JStr ''RDKit Descriptors''),
           (''description'', JStr ''RDKit molecular fingerprints''),
           (''descriptor'', JObj [(''type'', JStr ''rdkit''), (''fp_type'', JStr ''morgan''),
                                  (''nBits'', JInt 1024), (''radius'', JInt 2),
                                  (''fmt'', JStr ''smiles'')])]"
| "init_config cfg_complex =
     JObj [(''name'', JStr ''Complex Multi-Column Descriptors''),
           (''description'', JStr ''ComplexFragmentor for multiple molecular columns''),
           (''associator'',
              JList [JList [JStr ''molecules'',
                            JObj [(''type'', JStr ''circus''), (''lower'', JInt 0),
                                  (''upper'', JInt 2)]]]),
           (''structure_columns'', JList [JStr ''molecules'']),
           (''fmt'', JStr ''smiles'')]"

definition init_body :: "('d, 'm, 'c, 'f) env \<Rightarrow> config_type \<Rightarrow> string \<Rightarrow> unit action" where
  "init_body env descriptor_type path =
     andthen (call (EvJsonDump path) (\<lambda>fs. Inr (dumps 0 (init_config descriptor_type)))) (\<lambda>text.
     andthen (write_file env path text) (\<lambda>_.
     andthen (echo (''Configuration file created: '' @ path)) (\<lambda>_.
     echo (''Edit this file to customize your '' @ config_type_name descriptor_type
           @ '' setup''))))"

definition init ::
  "('d, 'm, 'c, 'f) env \<Rightarrow> config_type \<Rightarrow> string \<Rightarrow> world \<Rightarrow> outcome \<times> world" where
  "init env descriptor_type path =
     click_command ''Error creating configuration'' (init_body env descriptor_type path)"

text \<open>Reading a configuration back.\<close>

fun member :: "json \<Rightarrow> string \<Rightarrow> json option" where
  "member (JObj kvs) k = map_of kvs k"
| "member _ k = None"

fun is_name :: "json \<Rightarrow> bool" where
  "is_name (JStr s) = True"
| "is_name _ = False"

fun is_object :: "json \<Rightarrow> bool" where
  "is_object (JObj kvs) = True"
| "is_object _ = False"

fun is_pair :: "json \<Rightarrow> bool" where
  "is_pair (JList [c, t]) = (is_name c \<and> is_object t)"
| "is_pair _ = False"

fun is_pair_list :: "json \<Rightarrow> bool" where
  "is_pair_list (JList xs) = list_all is_pair xs"
| "is_pair_list _ = False"

fun is_name_list :: "json \<Rightarrow> bool" where
  "is_name_list (JList xs) = list_all is_name xs"
| "is_name_list _ = False"

section \<open>System information\<close>

definition import_stmt :: "('d, 'm, 'c, 'f) env \<Rightarrow> string \<Rightarrow> unit action" where
  "import_stmt env name =
     call (EvImport name)
       (\<lambda>fs. case import_module env name of
                Imported \<Rightarrow> Inr ()
              | ImportError e \<Rightarrow> Inl e
              | OtherError e \<Rightarrow> Inl e)"

text \<open>
  \<^verbatim>\<open>try: import m; echo("  m: Available")  except ImportError: echo("  m: Not available")\<close>:
  the import error ends here and the command goes on.
\<close>

definition probe :: "('d, 'm, 'c, 'f) env \<Rightarrow> string \<Rightarrow> unit action" where
  "probe env name =
     (\<lambda>w. case import_module env name of
             Imported \<Rightarrow> echo (''  '' @ name @ '': Available'') (w\<lparr>trace := trace w @ [EvImport name]\<rparr>)
           | ImportError e \<Rightarrow>
               echo (''  '' @ name @ '': Not available'') (w\<lparr>trace := trace w @ [EvImport name]\<rparr>)
           | OtherError e \<Rightarrow> (Inl e, w\<lparr>trace := trace w @ [EvImport name]\<rparr>))"

definition info_body :: "('d, 'm, 'c, 'f) env \<Rightarrow> unit action" where
  "info_body env =
     andthen (import_stmt env ''platform'') (\<lambda>_.
     andthen (import_stmt env ''sklearn'') (\<lambda>_.
     andthen (import_stmt env ''pandas'') (\<lambda>_.
     andthen (import_stmt env ''numpy'') (\<lambda>_.
     andthen (echo ''DOPtools System Information'') (\<lambda>_.
     andthen (echo (replicate 30 CHR ''='')) (\<lambda>_.
     andthen (echo (''DOPtools version: ''
        @ (case doptools_version env of Some v \<Rightarrow> v | None \<Rightarrow> ''Unknown''))) (\<lambda>_.
     andthen (echo (''Python version: '' @ python_version env)) (\<lambda>_.
     andthen (echo (''Platform: '' @ platform_text env)) (\<lambda>_.
     andthen (echo []) (\<lambda>_.
     andthen (echo ''Dependencies:'') (\<lambda>_.
     andthen (echo (''  pandas: '' @ module_version env ''pandas'')) (\<lambda>_.
     andthen (echo (''  numpy: '' @ module_version env ''numpy'')) (\<lambda>_.
     andthen (echo (''  scikit-learn: '' @ module_version env ''sklearn'')) (\<lambda>_.
     andthen (probe env ''chython'') (\<lambda>_.
     probe env ''rdkit'')))))))))))))))"


section \<open>All commands\<close>

datatype command =
    Circus circus_args
  | Rdkit rdkit_args
  | Complex complex_args
  | Optimize string bool
  | Rebuild string string bool
  | Coloratom coloratom_args
  | Plot plot_args
  | Init config_type string
  | Info


fun body :: "('d, 'm, 'c, 'f) env \<Rightarrow> command \<Rightarrow> unit action" where
  "body env (Circus a) = circus_body env a"
| "body env (Rdkit a) = rdkit_body env a"
| "body env (Complex a) = complex_body env a"
| "body env (Optimize c v) = optimize_body c v"
| "body env (Rebuild i out v) = rebuild_body i out v"
| "body env (Coloratom a) = coloratom_body env a"
| "body env (Plot a) = plot_body a"
| "body env (Init t out) = init_body env t out"
| "body env Info = info_body env"


section \<open>Observing a run\<close>

text \<open>The collaborator calls a run added to the trace, and the step each call stands for.\<close>

definition new_events :: "world \<Rightarrow> world \<Rightarrow> event list" where
  "new_events w w' = drop (length (trace w)) (trace w')"

datatype step = Configure | Load | Construct | Fit | Transform | Write | Other

fun step_of :: "event \<Rightarrow> step" where
  "step_of (EvJsonLoad p) = Configure"
| "step_of (EvReadCsv p s) = Load"
| "step_of (EvNew c) = Construct"
| "step_of (EvFit xs) = Fit"
| "step_of (EvTransform xs) = Transform"
| "step_of (EvTransformFrame df) = Transform"
| "step_of (EvToCsv p) = Write"
| "step_of _ = Other"

text \<open>
  Two worlds are alike when they differ at most in what has been printed; two actions are
  alike when from alike worlds they give the same result and leave alike worlds; narration
  always returns and leaves a world like the one it started in.
\<close>

definition alike :: "world \<Rightarrow> world \<Rightarrow> bool" where
  "alike w1 w2 = (files w1 = files w2 \<and> trace w1 = trace w2)"

definition eqv :: "'a action \<Rightarrow> 'a action \<Rightarrow> bool" where
  "eqv m1 m2 =
     (\<forall>w1 w2. alike w1 w2 \<longrightarrow> fst (m1 w1) = fst (m2 w2) \<and> alike (snd (m1 w1)) (snd (m2 w2)))"

definition narration :: "unit action \<Rightarrow> bool" where
  "narration m = (\<forall>w. fst (m w) = Inr () \<and> alike (snd (m w)) w)"

text \<open>
  An action that leaves the files alone and makes an initial part of the given calls.
\<close>

definition calls :: "'a action \<Rightarrow> event list \<Rightarrow> bool" where
  "calls m evs =
     (\<forall>w. files (snd (m w)) = files w
        \<and> (\<exists>made. trace (snd (m w)) = trace w @ made \<and> prefix made evs))"

section \<open>An executable environment\<close>

text \<open>
  Small stand-ins for the collaborators, to run the commands on concrete inputs; they are
  not pandas and not \<^verbatim>\<open>doptools.chem\<close>. A reader of plain delimited text (no quoting, every
  field a string, header names taken as they stand), a calculator that counts the atoms
  named in its vocabulary, learnt by \<open>fit\<close> for the substructure descriptor and fixed for
  the fingerprint, a composite whose constructor takes the keywords \<open>associator\<close> and
  \<open>structure_columns\<close> and no other, which transforms the columns of its associator and
  uses its structure columns only for fitting, and a file system that refuses the empty
  path. The colouring object accepts every model and every calculator and explains every
  structure, which the library itself need not do.
\<close>

fun split_on :: "char \<Rightarrow> string \<Rightarrow> string list" where
  "split_on c [] = [[]]"
| "split_on c (x # xs) =
     (if x = c then [] # split_on c xs
      else (case split_on c xs of [] \<Rightarrow> [[x]] | y # ys \<Rightarrow> (x # y) # ys))"

fun columns_of :: "string list \<Rightarrow> cell list list \<Rightarrow> (string \<times> cell list) list" where
  "columns_of [] rows = []"
| "columns_of (h # hs) rows =
     (h, map (\<lambda>r. case r of [] \<Rightarrow> NaN | x # _ \<Rightarrow> x) rows) # columns_of hs (map tl rows)"

definition plain_table :: "string \<Rightarrow> string \<Rightarrow> string + frame" where
  "plain_table sep text =
     (case sep of
        [c] \<Rightarrow>
          (case filter (\<lambda>l. l \<noteq> []) (split_on (CHR 0x0A) text) of
             [] \<Rightarrow> Inl ''No columns to parse from file''
           | h # rs \<Rightarrow>
               Inr \<lparr>nrows = length rs,
                    cols = columns_of (split_on c h) (map (\<lambda>r. map S (split_on c r)) rs)\<rparr>)
      | _ \<Rightarrow> Inl ''unsupported separator'')"

datatype calculator = Atoms string | Composite "string list"

definition count_table :: "string \<Rightarrow> string \<Rightarrow> cell list \<Rightarrow> frame" where
  "count_table pre vocabulary xs =
     \<lparr>nrows = length xs,
      cols = map (\<lambda>ch. (pre @ [ch], map (\<lambda>x. I (int (count_list (cell_text x) ch))) xs))
                 vocabulary\<rparr>"

fun associated :: "json list \<Rightarrow> string list" where
  "associated [] = []"
| "associated (JList (JStr c # spec) # ps) = c # associated ps"
| "associated (p # ps) = associated ps"

fun composite_table :: "string list \<Rightarrow> frame \<Rightarrow> string + frame" where
  "composite_table [] df = Inr \<lparr>nrows = nrows df, cols = []\<rparr>"
| "composite_table (c # cs) df =
     (case getcol df c of
        Inl e \<Rightarrow> Inl e
      | Inr xs \<Rightarrow>
          (case composite_table cs df of
             Inl e \<Rightarrow> Inl e
           | Inr rest \<Rightarrow>
               Inr \<lparr>nrows = nrows df,
                    cols = cols (count_table (c @ ''::'') ''CNO'' xs) @ cols rest\<rparr>))"

definition config1 :: json where
  "config1 = JObj [(''associator'', JList [JList [JStr ''SMILES'', JObj [(''type'', JStr ''circus'')]]]),
                   (''structure_columns'', JList [JStr ''molecules''])]"

fun unexpected_keyword :: "(string \<times> json) list \<Rightarrow> string option" where
  "unexpected_keyword [] = None"
| "unexpected_keyword ((k, v) # kvs) =
     (if k = ''associator'' \<or> k = ''structure_columns'' then unexpected_keyword kvs else Some k)"

definition new_composite :: "json \<Rightarrow> string + calculator" where
  "new_composite cfg =
     (case cfg of
        JObj kvs \<Rightarrow>
          (case unexpected_keyword kvs of
             Some k \<Rightarrow>
               Inl (''ComplexFragmentor.__init__() got an unexpected keyword argument ''
                    @ [CHR 0x27] @ k @ [CHR 0x27])
           | None \<Rightarrow>
               (case map_of kvs ''associator'' of
                  Some (JList ps) \<Rightarrow> Inr (Composite (associated ps))
                | _ \<Rightarrow> Inl ''associator is required''))
      | _ \<Rightarrow> Inl ''argument after ** must be a mapping'')"

definition plain_env :: "(calculator, unit, calculator, string) env" where
  "plain_env =
     \<lparr>read_csv = (\<lambda>fs path sep.
         case fs path of None \<Rightarrow> Inl ''No such file or directory'' | Some text \<Rightarrow> plain_table sep text),
      json_load = (\<lambda>fs path.
         case fs path of
           None \<Rightarrow> Inl ''No such file or directory''
         | Some text \<Rightarrow>
             if text = dumps 0 config1 then Inr config1
             else if text = dumps 0 (init_config cfg_complex) then Inr (init_config cfg_complex)
             else Inl ''Expecting value''),
      pickle_load = (\<lambda>fs path.
         case fs path of None \<Rightarrow> Inl ''No such file or directory'' | Some text \<Rightarrow> Inr ()),
      write_error = (\<lambda>fs path. if path = [] then Some ''No such file or directory'' else None),
      ChythonCircus = (\<lambda>lo up ob fmt.
         if 0 \<le> lo \<and> lo \<le> up then Inr (Atoms []) else Inl ''lower must not exceed upper''),
      Fingerprinter = (\<lambda>t n r fmt.
         if 0 < n then Inr (Atoms ''CNO'') else Inl ''nBits must be positive''),
      ComplexFragmentor = new_composite,
      fit = (\<lambda>d xs.
         case d of
           Atoms v \<Rightarrow> Inr (Atoms (remdups (concat (map cell_text xs))))
         | Composite cs \<Rightarrow> Inr (Composite cs)),
      transform = (\<lambda>d xs.
         case d of
           Atoms v \<Rightarrow> Inr (count_table [] v xs)
         | Composite cs \<Rightarrow> Inl ''a table is required''),
      transform_frame = (\<lambda>d df.
         case d of
           Atoms v \<Rightarrow> Inl ''a list is required''
         | Composite cs \<Rightarrow> composite_table cs df),
      ColorAtom = (\<lambda>m d. Inr d),
      explain = (\<lambda>c smi. Inr smi),
      savefig = (\<lambda>f path. Inr (''figure of '' @ f)),
      fig_show = (\<lambda>f. None),
      import_module = (\<lambda>name.
         if name = ''rdkit'' then ImportError ''No module named rdkit'' else Imported),
      module_version = (\<lambda>name. ''1.0''),
      doptools_version = None,
      python_version = ''3.11'',
      platform_text = ''Linux''\<rparr>"

definition headless_env :: "(calculator, unit, calculator, string) env" where
  "headless_env = plain_env\<lparr>fig_show := (\<lambda>f. Some ''no display'')\<rparr>"

definition table1 :: string where
  "table1 = ''ID'' @ [CHR 0x09] @ ''SMILES'' @ [CHR 0x0A]
          @ ''m1'' @ [CHR 0x09] @ ''CCO'' @ [CHR 0x0A]
          @ ''m2'' @ [CHR 0x09] @ ''CCC'' @ [CHR 0x0A]"

definition table2 :: string where
  "table2 = ''SMILES'' @ [CHR 0x0A] @ ''CCO'' @ [CHR 0x0A] @ ''CCC'' @ [CHR 0x0A]"

definition table3 :: string where
  "table3 = ''ID'' @ [CHR 0x0A] @ ''m1'' @ [CHR 0x0A] @ ''m2'' @ [CHR 0x0A]"

definition frame1 :: frame where
  "frame1 = \<lparr>nrows = 2, cols = [(''ID'', [S ''m1'', S ''m2'']), (''SMILES'', [S ''CCO'', S ''CCC''])]\<rparr>"

definition frame2 :: frame where
  "frame2 = \<lparr>nrows = 2, cols = [(''SMILES'', [S ''CCO'', S ''CCC''])]\<rparr>"

definition frame3 :: frame where
  "frame3 = \<lparr>nrows = 2, cols = [(''ID'', [S ''m1'', S ''m2''])]\<rparr>"

definition world0 :: world where
  "world0 = \<lparr>files = Map.empty, stdout = [], trace = [],
             heap = [[''doptools'', ''models'', ''optimize'']], sys_argv = 0\<rparr>"

definition world1 :: world where
  "world1 = world0\<lparr>files := [''mols.tsv'' \<mapsto> table1, ''plain.tsv'' \<mapsto> table2, ''ids.tsv'' \<mapsto> table3,
                              ''cfg.json'' \<mapsto> dumps 0 config1,
                              ''init.json'' \<mapsto> dumps 0 (init_config cfg_complex), ''model.pkl'' \<mapsto> ''model'']\<rparr>"

definition circus_args1 :: circus_args where
  "circus_args1 = \<lparr>input_file = ''mols.tsv'', output_file = ''out.csv'', separator = [CHR 0x09],
                   verbose = True, smiles_column = ''SMILES'', id_column = ''ID'',
                   lower = 0, upper = 3, on_bond = False\<rparr>"

definition rdkit_args1 :: rdkit_args where
  "rdkit_args1 = \<lparr>input_file = ''mols.tsv'', output_file = ''out.csv'', separator = [CHR 0x09],
                  verbose = True, smiles_column = ''SMILES'', id_column = ''ID'',
                  fp_kind = morgan, nbits = 1024, radius = 2\<rparr>"

definition complex_args1 :: complex_args where
  "complex_args1 = \<lparr>input_file = ''mols.tsv'', output_file = ''out.csv'', separator = [CHR 0x09],
                    verbose = True, config_file = ''cfg.json''\<rparr>"

definition coloratom_args1 :: coloratom_args where
  "coloratom_args1 = \<lparr>model_file = ''model.pkl'', smiles = ''CCO'', descriptor_kind = dt_morgan,
                      image_file = Some ''atoms.png'', show_flag = True\<rparr>"

definition plot_args0 :: plot_args where
  "plot_args0 = \<lparr>plot_input_file = ''d.csv'', plot_kind = scatter, x_column = Some ''x'',
                 y_column = None, plot_output_file = Some ''p.png'', plot_show = True\<rparr>"

definition circus_args2 :: circus_args where
  "circus_args2 = circus_args1\<lparr>input_file := ''plain.tsv''\<rparr>"

definition rdkit_args2 :: rdkit_args where
  "rdkit_args2 = rdkit_args1\<lparr>input_file := ''plain.tsv''\<rparr>"

definition circus_args3 :: circus_args where
  "circus_args3 = circus_args1\<lparr>smiles_column := ''smiles''\<rparr>"

definition rdkit_args3 :: rdkit_args where
  "rdkit_args3 = rdkit_args1\<lparr>smiles_column := ''smiles''\<rparr>"

definition complex_args4 :: complex_args where
  "complex_args4 = complex_args1\<lparr>config_file := ''init.json''\<rparr>"

definition complex_args3 :: complex_args where
  "complex_args3 = complex_args1\<lparr>input_file := ''ids.tsv''\<rparr>"

definition coloratom_args2 :: coloratom_args where
  "coloratom_args2 = coloratom_args1\<lparr>descriptor_kind := dt_circus\<rparr>"

section \<open>Properties\<close>

lemmas action_defs =
  ret_def raise_def andthen_def lift_def echo_def whenever_def call_def click_command_def
  get_sys_argv_def set_sys_argv_def new_list_def list_extend_def

subsection \<open>Runs that differ only in what they print\<close>

lemma narration_echo: "narration (echo s)"
  by (simp add: narration_def echo_def alike_def)

lemma narration_ret: "narration (ret ())"
  by (simp add: narration_def ret_def alike_def)

lemma narration_whenever: "narration m \<Longrightarrow> narration (whenever b m)"
  by (simp add: whenever_def narration_ret)

lemma narration_andthen:
  assumes "narration m" and "\<And>x. narration (f x)"
  shows "narration (andthen m f)"
proof -
  have "fst (andthen m f w) = Inr () \<and> alike (snd (andthen m f w)) w" for w
  proof -
    obtain w1 where m: "m w = (Inr (), w1)" and a1: "alike w1 w"
      using assms(1) unfolding narration_def by (metis prod.collapse)
    obtain w2 where f: "f () w1 = (Inr (), w2)" and a2: "alike w2 w1"
      using assms(2) unfolding narration_def by (metis prod.collapse)
    from m f a1 a2 show ?thesis
      by (simp add: andthen_def alike_def)
  qed
  then show ?thesis
    by (simp add: narration_def)
qed

lemma eqv_whenever: "narration m1 \<Longrightarrow> narration m2 \<Longrightarrow> eqv (whenever b1 m1) (whenever b2 m2)"
  using narration_whenever [of m1 b1] narration_whenever [of m2 b2]
  by (simp add: eqv_def narration_def alike_def)

lemma eqv_andthen:
  assumes "eqv m1 m2" and "\<And>x. eqv (f1 x) (f2 x)"
  shows "eqv (andthen m1 f1) (andthen m2 f2)"
proof -
  have "fst (andthen m1 f1 w1) = fst (andthen m2 f2 w2)
      \<and> alike (snd (andthen m1 f1 w1)) (snd (andthen m2 f2 w2))"
    if a: "alike w1 w2" for w1 w2
  proof -
    obtain r1 v1 where m1: "m1 w1 = (r1, v1)" by (cases "m1 w1")
    obtain r2 v2 where m2: "m2 w2 = (r2, v2)" by (cases "m2 w2")
    from assms(1) a m1 m2 have r: "r1 = r2" and v: "alike v1 v2"
      unfolding eqv_def by fastforce+
    show ?thesis
    proof (cases r1)
      case (Inl e)
      with m1 m2 r v show ?thesis by (auto simp: andthen_def)
    next
      case (Inr x)
      from assms(2) [of x] v
      have "fst (f1 x v1) = fst (f2 x v2) \<and> alike (snd (f1 x v1)) (snd (f2 x v2))"
        unfolding eqv_def by blast
      with Inr m1 m2 r show ?thesis by (auto simp: andthen_def)
    qed
  qed
  then show ?thesis
    by (simp add: eqv_def)
qed

lemma eqv_call: "eqv (call ev f) (call ev f)"
  by (simp add: eqv_def call_def alike_def)

lemma eqv_lift: "eqv (lift r) (lift r)"
  by (simp add: eqv_def lift_def)

lemma eqv_ret: "eqv (ret x) (ret x)"
  by (simp add: eqv_def ret_def)

lemma eqv_raise: "eqv (raise e) (raise e)"
  by (simp add: eqv_def raise_def)

lemma eqv_if: "eqv a a' \<Longrightarrow> eqv b b' \<Longrightarrow> eqv (if c then a else b) (if c then a' else b')"
  by simp

lemma eqv_write_file: "eqv (write_file env p t) (write_file env p t)"
  by (simp add: eqv_def write_file_def alike_def split: option.splits)

lemmas eqv_rules =
  eqv_whenever eqv_andthen eqv_if narration_echo narration_ret narration_whenever
  narration_andthen

lemmas eqv_same = eqv_call eqv_lift eqv_ret eqv_raise eqv_write_file

lemma circus_body_quiet: "eqv (circus_body env a) (circus_body env (a\<lparr>verbose := v\<rparr>))"
  unfolding circus_body_def to_csv_def
  by (intro eqv_rules) (simp_all add: eqv_same)

lemma rdkit_body_quiet: "eqv (rdkit_body env a) (rdkit_body env (a\<lparr>verbose := v\<rparr>))"
  unfolding rdkit_body_def to_csv_def
  by (intro eqv_rules) (simp_all add: eqv_same)

lemma complex_body_quiet: "eqv (complex_body env a) (complex_body env (a\<lparr>verbose := v\<rparr>))"
  unfolding complex_body_def to_csv_def
  by (intro eqv_rules) (simp_all add: eqv_same)

lemma eqv_click:
  assumes "eqv m1 m2"
  shows "fst (click_command what m1 w) = fst (click_command what m2 w)
       \<and> files (snd (click_command what m1 w)) = files (snd (click_command what m2 w))
       \<and> trace (snd (click_command what m1 w)) = trace (snd (click_command what m2 w))"
proof -
  have s: "alike w w" by (simp add: alike_def)
  from assms s have "fst (m1 w) = fst (m2 w) \<and> alike (snd (m1 w)) (snd (m2 w))"
    unfolding eqv_def by blast
  then show ?thesis
    by (cases "m1 w"; cases "m2 w") (auto simp: click_command_def alike_def split: sum.splits)
qed

lemma circus_quiet:
  "fst (circus env a w) = fst (circus env (a\<lparr>verbose := False\<rparr>) w)
   \<and> files (snd (circus env a w)) = files (snd (circus env (a\<lparr>verbose := False\<rparr>) w))
   \<and> trace (snd (circus env a w)) = trace (snd (circus env (a\<lparr>verbose := False\<rparr>) w))"
  unfolding circus_def by (rule eqv_click [OF circus_body_quiet])

lemma rdkit_quiet:
  "fst (rdkit env a w) = fst (rdkit env (a\<lparr>verbose := False\<rparr>) w)
   \<and> files (snd (rdkit env a w)) = files (snd (rdkit env (a\<lparr>verbose := False\<rparr>) w))
   \<and> trace (snd (rdkit env a w)) = trace (snd (rdkit env (a\<lparr>verbose := False\<rparr>) w))"
  unfolding rdkit_def by (rule eqv_click [OF rdkit_body_quiet])

lemma complex_quiet:
  "fst (complex env a w) = fst (complex env (a\<lparr>verbose := False\<rparr>) w)
   \<and> files (snd (complex env a w)) = files (snd (complex env (a\<lparr>verbose := False\<rparr>) w))
   \<and> trace (snd (complex env a w)) = trace (snd (complex env (a\<lparr>verbose := False\<rparr>) w))"
  unfolding complex_def by (rule eqv_click [OF complex_body_quiet])

subsection \<open>What a run of a descriptor command consists of\<close>

lemmas quiet_defs =
  ret_def raise_def andthen_def lift_def whenever_def call_def click_command_def
  to_csv_def write_file_def

lemma new_events_append [simp]: "trace w' = trace w @ evs \<Longrightarrow> new_events w w' = evs"
  by (simp add: new_events_def)

lemma new_events_same [simp]: "trace w' = trace w \<Longrightarrow> new_events w w' = []"
  by (simp add: new_events_def)

lemma click_failure:
  "fst (click_command what m w) = ClickException x
   \<longleftrightarrow> (\<exists>e. fst (m w) = Inl e \<and> x = what @ '': '' @ e)"
  by (cases "m w") (auto simp: click_command_def split: sum.splits)



lemma circus_success:
  assumes "fst (circus env a w) = Returned"
  shows "\<exists>df c smi c' feats out.
           read_csv env (files w) (input_file a) (separator a) = Inr df
         \<and> smiles_column a \<in> set (columns df)
         \<and> ChythonCircus env (lower a) (upper a) (Some (on_bond a)) ''smiles'' = Inr c
         \<and> getcol df (smiles_column a) = Inr smi
         \<and> fit env c smi = Inr c'
         \<and> transform env c' smi = Inr feats
         \<and> add_ids df (id_column a) feats = Inr out
         \<and> write_error env (files w) (output_file a) = None
         \<and> files (snd (circus env a w)) = (files w)(output_file a \<mapsto> to_csv_text out)
         \<and> new_events w (snd (circus env a w)) =
             [EvReadCsv (input_file a) (separator a), EvNew ''ChythonCircus'',
              EvFit smi, EvTransform smi, EvToCsv (output_file a)]"
proof -
  define q where "q = circus env (a\<lparr>verbose := False\<rparr>) w"
  have e: "fst (circus env a w) = fst q" "files (snd (circus env a w)) = files (snd q)"
    "new_events w (snd (circus env a w)) = new_events w (snd q)"
    unfolding q_def new_events_def using circus_quiet [of env a w] by simp_all
  from assms e obtain w' where w': "q = (Returned, w')"
    by (cases q) auto
  from w' [unfolded q_def]
  have "\<exists>df c smi c' feats out.
           read_csv env (files w) (input_file a) (separator a) = Inr df
         \<and> smiles_column a \<in> set (columns df)
         \<and> ChythonCircus env (lower a) (upper a) (Some (on_bond a)) ''smiles'' = Inr c
         \<and> getcol df (smiles_column a) = Inr smi
         \<and> fit env c smi = Inr c'
         \<and> transform env c' smi = Inr feats
         \<and> add_ids df (id_column a) feats = Inr out
         \<and> write_error env (files w) (output_file a) = None
         \<and> files w' = (files w)(output_file a \<mapsto> to_csv_text out)
         \<and> new_events w w' =
             [EvReadCsv (input_file a) (separator a), EvNew ''ChythonCircus'',
              EvFit smi, EvTransform smi, EvToCsv (output_file a)]"
    by (auto simp: circus_def circus_body_def quiet_defs
        split: sum.splits if_splits option.splits)
  with e w' show ?thesis by simp
qed

lemma circus_steps:
  "prefix (map step_of (new_events w (snd (circus env a w)))) [Load, Construct, Fit, Transform, Write]
   \<and> distinct (new_events w (snd (circus env a w)))"
proof -
  define q where "q = circus env (a\<lparr>verbose := False\<rparr>) w"
  have e: "new_events w (snd (circus env a w)) = new_events w (snd q)"
    unfolding q_def new_events_def using circus_quiet [of env a w] by simp
  obtain r w' where w': "q = (r, w')" by (cases q)
  from w' [unfolded q_def]
  have "prefix (map step_of (new_events w w')) [Load, Construct, Fit, Transform, Write]
      \<and> distinct (new_events w w')"
    by (auto simp: circus_def circus_body_def quiet_defs
        split: sum.splits if_splits option.splits)
  with e w' show ?thesis by simp
qed

lemma circus_failure_files:
  assumes "fst (circus env a w) = ClickException m"
  shows "files (snd (circus env a w)) = files w"
proof -
  define q where "q = circus env (a\<lparr>verbose := False\<rparr>) w"
  have e: "fst (circus env a w) = fst q" "files (snd (circus env a w)) = files (snd q)"
    unfolding q_def using circus_quiet [of env a w] by simp_all
  from assms e obtain w' where w': "q = (ClickException m, w')"
    by (cases q) auto
  from w' [unfolded q_def]
  have "files w' = files w"
    by (auto simp: circus_def circus_body_def quiet_defs
        split: sum.splits if_splits option.splits)
  with e w' show ?thesis by simp
qed

lemma rdkit_success:
  assumes "fst (rdkit env a w) = Returned"
  shows "\<exists>df c smi feats out.
           read_csv env (files w) (input_file a) (separator a) = Inr df
         \<and> smiles_column a \<in> set (columns df)
         \<and> Fingerprinter env (fp_kind a) (nbits a) (Some (radius a)) ''smiles'' = Inr c
         \<and> getcol df (smiles_column a) = Inr smi
         \<and> transform env c smi = Inr feats
         \<and> add_ids df (id_column a) feats = Inr out
         \<and> write_error env (files w) (output_file a) = None
         \<and> files (snd (rdkit env a w)) = (files w)(output_file a \<mapsto> to_csv_text out)
         \<and> new_events w (snd (rdkit env a w)) =
             [EvReadCsv (input_file a) (separator a), EvNew ''Fingerprinter'',
              EvTransform smi, EvToCsv (output_file a)]"
proof -
  define q where "q = rdkit env (a\<lparr>verbose := False\<rparr>) w"
  have e: "fst (rdkit env a w) = fst q" "files (snd (rdkit env a w)) = files (snd q)"
    "new_events w (snd (rdkit env a w)) = new_events w (snd q)"
    unfolding q_def new_events_def using rdkit_quiet [of env a w] by simp_all
  from assms e obtain w' where w': "q = (Returned, w')"
    by (cases q) auto
  from w' [unfolded q_def]
  have "\<exists>df c smi feats out.
           read_csv env (files w) (input_file a) (separator a) = Inr df
         \<and> smiles_column a \<in> set (columns df)
         \<and> Fingerprinter env (fp_kind a) (nbits a) (Some (radius a)) ''smiles'' = Inr c
         \<and> getcol df (smiles_column a) = Inr smi
         \<and> transform env c smi = Inr feats
         \<and> add_ids df (id_column a) feats = Inr out
         \<and> write_error env (files w) (output_file a) = None
         \<and> files w' = (files w)(output_file a \<mapsto> to_csv_text out)
         \<and> new_events w w' =
             [EvReadCsv (input_file a) (separator a), EvNew ''Fingerprinter'',
              EvTransform smi, EvToCsv (output_file a)]"
    by (auto simp: rdkit_def rdkit_body_def quiet_defs
        split: sum.splits if_splits option.splits)
  with e w' show ?thesis by simp
qed

lemma rdkit_steps:
  "prefix (map step_of (new_events w (snd (rdkit env a w)))) [Load, Construct, Transform, Write]
   \<and> distinct (new_events w (snd (rdkit env a w)))"
proof -
  define q where "q = rdkit env (a\<lparr>verbose := False\<rparr>) w"
  have e: "new_events w (snd (rdkit env a w)) = new_events w (snd q)"
    unfolding q_def new_events_def using rdkit_quiet [of env a w] by simp
  obtain r w' where w': "q = (r, w')" by (cases q)
  from w' [unfolded q_def]
  have "prefix (map step_of (new_events w w')) [Load, Construct, Transform, Write]
      \<and> distinct (new_events w w')"
    by (auto simp: rdkit_def rdkit_body_def quiet_defs
        split: sum.splits if_splits option.splits)
  with e w' show ?thesis by simp
qed

lemma rdkit_failure_files:
  assumes "fst (rdkit env a w) = ClickException m"
  shows "files (snd (rdkit env a w)) = files w"
proof -
  define q where "q = rdkit env (a\<lparr>verbose := False\<rparr>) w"
  have e: "fst (rdkit env a w) = fst q" "files (snd (rdkit env a w)) = files (snd q)"
    unfolding q_def using rdkit_quiet [of env a w] by simp_all
  from assms e obtain w' where w': "q = (ClickException m, w')"
    by (cases q) auto
  from w' [unfolded q_def]
  have "files w' = files w"
    by (auto simp: rdkit_def rdkit_body_def quiet_defs
        split: sum.splits if_splits option.splits)
  with e w' show ?thesis by simp
qed

lemma complex_success:
  assumes "fst (complex env a w) = Returned"
  shows "\<exists>config df c feats.
           json_load env (files w) (config_file a) = Inr config
         \<and> read_csv env (files w) (input_file a) (separator a) = Inr df
         \<and> ComplexFragmentor env config = Inr c
         \<and> transform_frame env c df = Inr feats
         \<and> write_error env (files w) (output_file a) = None
         \<and> files (snd (complex env a w)) = (files w)(output_file a \<mapsto> to_csv_text feats)
         \<and> new_events w (snd (complex env a w)) =
             [EvJsonLoad (config_file a), EvReadCsv (input_file a) (separator a),
              EvNew ''ComplexFragmentor'', EvTransformFrame df, EvToCsv (output_file a)]"
proof -
  define q where "q = complex env (a\<lparr>verbose := False\<rparr>) w"
  have e: "fst (complex env a w) = fst q" "files (snd (complex env a w)) = files (snd q)"
    "new_events w (snd (complex env a w)) = new_events w (snd q)"
    unfolding q_def new_events_def using complex_quiet [of env a w] by simp_all
  from assms e obtain w' where w': "q = (Returned, w')"
    by (cases q) auto
  from w' [unfolded q_def]
  have "\<exists>config df c feats.
           json_load env (files w) (config_file a) = Inr config
         \<and> read_csv env (files w) (input_file a) (separator a) = Inr df
         \<and> ComplexFragmentor env config = Inr c
         \<and> transform_frame env c df = Inr feats
         \<and> write_error env (files w) (output_file a) = None
         \<and> files w' = (files w)(output_file a \<mapsto> to_csv_text feats)
         \<and> new_events w w' =
             [EvJsonLoad (config_file a), EvReadCsv (input_file a) (separator a),
              EvNew ''ComplexFragmentor'', EvTransformFrame df, EvToCsv (output_file a)]"
    by (auto simp: complex_def complex_body_def quiet_defs
        split: sum.splits if_splits option.splits)
  with e w' show ?thesis by simp
qed

lemma complex_steps:
  "prefix (map step_of (new_events w (snd (complex env a w))))
     [Configure, Load, Construct, Transform, Write]
   \<and> distinct (new_events w (snd (complex env a w)))"
proof -
  define q where "q = complex env (a\<lparr>verbose := False\<rparr>) w"
  have e: "new_events w (snd (complex env a w)) = new_events w (snd q)"
    unfolding q_def new_events_def using complex_quiet [of env a w] by simp
  obtain r w' where w': "q = (r, w')" by (cases q)
  from w' [unfolded q_def]
  have "prefix (map step_of (new_events w w')) [Configure, Load, Construct, Transform, Write]
      \<and> distinct (new_events w w')"
    by (auto simp: complex_def complex_body_def quiet_defs
        split: sum.splits if_splits option.splits)
  with e w' show ?thesis by simp
qed

lemma complex_failure_files:
  assumes "fst (complex env a w) = ClickException m"
  shows "files (snd (complex env a w)) = files w"
proof -
  define q where "q = complex env (a\<lparr>verbose := False\<rparr>) w"
  have e: "fst (complex env a w) = fst q" "files (snd (complex env a w)) = files (snd q)"
    unfolding q_def using complex_quiet [of env a w] by simp_all
  from assms e obtain w' where w': "q = (ClickException m, w')"
    by (cases q) auto
  from w' [unfolded q_def]
  have "files w' = files w"
    by (auto simp: complex_def complex_body_def quiet_defs
        split: sum.splits if_splits option.splits)
  with e w' show ?thesis by simp
qed

subsection \<open>The table written by the single-column commands\<close>


lemma getcol_present: "getcol d c = Inr vs \<Longrightarrow> c \<in> set (columns d)"
proof -
  assume g: "getcol d c = Inr vs"
  have "filter (\<lambda>(n, vs). n = c) (cols d) \<noteq> []"
    using g by (auto simp: getcol_def)
  then obtain n xs where "(n, xs) \<in> set (cols d)" "n = c"
    by (auto simp: filter_empty_conv)
  then show ?thesis
    by (force simp: columns_def)
qed



lemma add_ids_absent:
  assumes "c \<notin> set (columns df)" and "''ID'' \<notin> set (columns feats)"
  shows "add_ids df c feats = Inr (feats\<lparr>cols := (''ID'', range_cells (nrows feats)) # cols feats\<rparr>)"
  using assms by (simp add: add_ids_def insert_ID_def)





lemma read_table1: "read_csv plain_env (files world1) ''mols.tsv'' [CHR 0x09] = Inr frame1"
  by (simp add: plain_env_def world1_def world0_def plain_table_def table1_def frame1_def)

lemma read_table2: "read_csv plain_env (files world1) ''plain.tsv'' [CHR 0x09] = Inr frame2"
  by (simp add: plain_env_def world1_def world0_def plain_table_def table2_def frame2_def)

lemma circus_run1:
  "fst (circus plain_env circus_args1 world1) = Returned
   \<and> files (snd (circus plain_env circus_args1 world1)) ''out.csv''
       = Some (''ID,O,C'' @ [CHR 0x0A] @ ''m1,1,2'' @ [CHR 0x0A] @ ''m2,0,3'' @ [CHR 0x0A])"
  by code_simp


text \<open>
  C10. Two runs of \<^verbatim>\<open>descriptors circus\<close> from the same files with the same options except
  \<^verbatim>\<open>--verbose\<close> end the same way, leave the same files and make the same collaborator
  calls: the flag only adds lines to the standard output.
\<close>

theorem verbose_only_narrates:
  "fst (circus env (a\<lparr>verbose := True\<rparr>) w) = fst (circus env (a\<lparr>verbose := False\<rparr>) w)
   \<and> files (snd (circus env (a\<lparr>verbose := True\<rparr>) w))
       = files (snd (circus env (a\<lparr>verbose := False\<rparr>) w))
   \<and> trace (snd (circus env (a\<lparr>verbose := True\<rparr>) w))
       = trace (snd (circus env (a\<lparr>verbose := False\<rparr>) w))"
  using circus_quiet [of env "a\<lparr>verbose := True\<rparr>" w] by simp

lemma circus_computed:
  assumes "read_csv env (files w) (input_file a) (separator a) = Inr df"
    and "getcol df (smiles_column a) = Inr smi"
    and "ChythonCircus env (lower a) (upper a) (Some (on_bond a)) ''smiles'' = Inr c"
    and "fit env c smi = Inr c'"
    and "transform env c' smi = Inr feats"
    and "add_ids df (id_column a) feats = Inr out"
    and "write_error env (files w) (output_file a) = None"
  shows "fst (circus env a w) = Returned
       \<and> files (snd (circus env a w)) = (files w)(output_file a \<mapsto> to_csv_text out)"
proof -
  have "fst (circus env (a\<lparr>verbose := False\<rparr>) w) = Returned
      \<and> files (snd (circus env (a\<lparr>verbose := False\<rparr>) w))
          = (files w)(output_file a \<mapsto> to_csv_text out)"
    using assms getcol_present [OF assms(2)]
    by (simp add: circus_def circus_body_def quiet_defs)
  then show ?thesis
    using circus_quiet [of env a w] by simp
qed

lemma rdkit_computed:
  assumes "read_csv env (files w) (input_file a) (separator a) = Inr df"
    and "getcol df (smiles_column a) = Inr smi"
    and "Fingerprinter env (fp_kind a) (nbits a) (Some (radius a)) ''smiles'' = Inr c"
    and "transform env c smi = Inr feats"
    and "add_ids df (id_column a) feats = Inr out"
    and "write_error env (files w) (output_file a) = None"
  shows "fst (rdkit env a w) = Returned
       \<and> files (snd (rdkit env a w)) = (files w)(output_file a \<mapsto> to_csv_text out)"
proof -
  have "fst (rdkit env (a\<lparr>verbose := False\<rparr>) w) = Returned
      \<and> files (snd (rdkit env (a\<lparr>verbose := False\<rparr>) w))
          = (files w)(output_file a \<mapsto> to_csv_text out)"
    using assms getcol_present [OF assms(2)]
    by (simp add: rdkit_def rdkit_body_def quiet_defs)
  then show ?thesis
    using rdkit_quiet [of env a w] by simp
qed

text \<open>
  C5. When the loaded table has no column of the configured ID name, \<^verbatim>\<open>circus\<close> and
  \<^verbatim>\<open>rdkit\<close> do not fail for that: provided the other steps succeed, the command returns
  and the table it writes has the column \<open>ID\<close> in front, holding \<open>0, 1, ..., N-1\<close>, where
  \<open>N\<close> is the number of feature rows, which is the number of rows of the input.
\<close>

theorem synthetic_ids:
  "(read_csv env (files w) (input_file a) (separator a) = Inr df
      \<and> id_column a \<notin> set (columns df)
      \<and> getcol df (smiles_column a) = Inr smi \<and> length smi = nrows df
      \<and> ChythonCircus env (lower a) (upper a) (Some (on_bond a)) ''smiles'' = Inr c
      \<and> fit env c smi = Inr c'
      \<and> transform env c' smi = Inr feats \<and> nrows feats = length smi
      \<and> ''ID'' \<notin> set (columns feats)
      \<and> write_error env (files w) (output_file a) = None
    \<longrightarrow> fst (circus env a w) = Returned
      \<and> files (snd (circus env a w)) (output_file a)
          = Some (to_csv_text
              (feats\<lparr>cols := (''ID'', map (\<lambda>i. I (int i)) [0..<nrows df]) # cols feats\<rparr>)))
   \<and> (read_csv env (files v) (input_file b) (separator b) = Inr dg
      \<and> id_column b \<notin> set (columns dg)
      \<and> getcol dg (smiles_column b) = Inr smj \<and> length smj = nrows dg
      \<and> Fingerprinter env (fp_kind b) (nbits b) (Some (radius b)) ''smiles'' = Inr p
      \<and> transform env p smj = Inr bits \<and> nrows bits = length smj
      \<and> ''ID'' \<notin> set (columns bits)
      \<and> write_error env (files v) (output_file b) = None
    \<longrightarrow> fst (rdkit env b v) = Returned
      \<and> files (snd (rdkit env b v)) (output_file b)
          = Some (to_csv_text
              (bits\<lparr>cols := (''ID'', map (\<lambda>i. I (int i)) [0..<nrows dg]) # cols bits\<rparr>)))"
proof (intro conjI impI)
  assume h: "read_csv env (files w) (input_file a) (separator a) = Inr df
      \<and> id_column a \<notin> set (columns df)
      \<and> getcol df (smiles_column a) = Inr smi \<and> length smi = nrows df
      \<and> ChythonCircus env (lower a) (upper a) (Some (on_bond a)) ''smiles'' = Inr c
      \<and> fit env c smi = Inr c'
      \<and> transform env c' smi = Inr feats \<and> nrows feats = length smi
      \<and> ''ID'' \<notin> set (columns feats)
      \<and> write_error env (files w) (output_file a) = None"
  then have add: "add_ids df (id_column a) feats
      = Inr (feats\<lparr>cols := (''ID'', range_cells (nrows feats)) # cols feats\<rparr>)"
    by (simp add: add_ids_absent)
  from h have r: "fst (circus env a w) = Returned
      \<and> files (snd (circus env a w)) = (files w)(output_file a \<mapsto>
          to_csv_text (feats\<lparr>cols := (''ID'', range_cells (nrows feats)) # cols feats\<rparr>))"
    using add circus_computed [of env w a df smi c c' feats
        "feats\<lparr>cols := (''ID'', range_cells (nrows feats)) # cols feats\<rparr>"]
    by simp
  from r show "fst (circus env a w) = Returned" by simp
  from r h show "files (snd (circus env a w)) (output_file a)
      = Some (to_csv_text
          (feats\<lparr>cols := (''ID'', map (\<lambda>i. I (int i)) [0..<nrows df]) # cols feats\<rparr>))"
    by (simp add: range_cells_def)
next
  assume h: "read_csv env (files v) (input_file b) (separator b) = Inr dg
      \<and> id_column b \<notin> set (columns dg)
      \<and> getcol dg (smiles_column b) = Inr smj \<and> length smj = nrows dg
      \<and> Fingerprinter env (fp_kind b) (nbits b) (Some (radius b)) ''smiles'' = Inr p
      \<and> transform env p smj = Inr bits \<and> nrows bits = length smj
      \<and> ''ID'' \<notin> set (columns bits)
      \<and> write_error env (files v) (output_file b) = None"
  then have add: "add_ids dg (id_column b) bits
      = Inr (bits\<lparr>cols := (''ID'', range_cells (nrows bits)) # cols bits\<rparr>)"
    by (simp add: add_ids_absent)
  from h have r: "fst (rdkit env b v) = Returned
      \<and> files (snd (rdkit env b v)) = (files v)(output_file b \<mapsto>
          to_csv_text (bits\<lparr>cols := (''ID'', range_cells (nrows bits)) # cols bits\<rparr>))"
    using add rdkit_computed [of env v b dg smj p bits
        "bits\<lparr>cols := (''ID'', range_cells (nrows bits)) # cols bits\<rparr>"]
    by simp
  from r show "fst (rdkit env b v) = Returned" by simp
  from r h show "files (snd (rdkit env b v)) (output_file b)
      = Some (to_csv_text
          (bits\<lparr>cols := (''ID'', map (\<lambda>i. I (int i)) [0..<nrows dg]) # cols bits\<rparr>))"
    by (simp add: range_cells_def)
qed

theorem synthetic_ids_witness:
  "read_csv plain_env (files world1) ''plain.tsv'' [CHR 0x09] = Inr frame2
   \<and> ''ID'' \<notin> set (columns frame2)
   \<and> fst (circus plain_env circus_args2 world1) = Returned
   \<and> files (snd (circus plain_env circus_args2 world1)) ''out.csv''
       = Some (to_csv_text \<lparr>nrows = 2, cols = [(''ID'', [I 0, I 1]), (''O'', [I 1, I 0]), (''C'', [I 2, I 3])]\<rparr>)
   \<and> fst (rdkit plain_env rdkit_args2 world1) = Returned
   \<and> files (snd (rdkit plain_env rdkit_args2 world1)) ''out.csv''
       = Some (to_csv_text \<lparr>nrows = 2, cols = [(''ID'', [I 0, I 1]), (''C'', [I 2, I 3]),
                                               (''N'', [I 0, I 0]), (''O'', [I 1, I 0])]\<rparr>)"
proof -
  have a: "read_csv plain_env (files world1) (input_file circus_args2) (separator circus_args2)
        = Inr frame2
      \<and> id_column circus_args2 \<notin> set (columns frame2)
      \<and> getcol frame2 (smiles_column circus_args2) = Inr [S ''CCO'', S ''CCC'']
      \<and> length [S ''CCO'', S ''CCC''] = nrows frame2
      \<and> ChythonCircus plain_env (lower circus_args2) (upper circus_args2)
          (Some (on_bond circus_args2)) ''smiles'' = Inr (Atoms [])
      \<and> fit plain_env (Atoms []) [S ''CCO'', S ''CCC''] = Inr (Atoms ''OC'')
      \<and> transform plain_env (Atoms ''OC'') [S ''CCO'', S ''CCC'']
          = Inr \<lparr>nrows = 2, cols = [(''O'', [I 1, I 0]), (''C'', [I 2, I 3])]\<rparr>
      \<and> nrows \<lparr>nrows = 2, cols = [(''O'', [I 1, I 0]), (''C'', [I 2, I 3])]\<rparr>
          = length [S ''CCO'', S ''CCC'']
      \<and> ''ID'' \<notin> set (columns \<lparr>nrows = 2, cols = [(''O'', [I 1, I 0]), (''C'', [I 2, I 3])]\<rparr>)
      \<and> write_error plain_env (files world1) (output_file circus_args2) = None"
    using read_table2
    by (simp add: circus_args2_def circus_args1_def plain_env_def frame2_def columns_def
        getcol_def count_table_def cell_text_def)
  have b: "read_csv plain_env (files world1) (input_file rdkit_args2) (separator rdkit_args2)
        = Inr frame2
      \<and> id_column rdkit_args2 \<notin> set (columns frame2)
      \<and> getcol frame2 (smiles_column rdkit_args2) = Inr [S ''CCO'', S ''CCC'']
      \<and> length [S ''CCO'', S ''CCC''] = nrows frame2
      \<and> Fingerprinter plain_env (fp_kind rdkit_args2) (nbits rdkit_args2)
          (Some (radius rdkit_args2)) ''smiles'' = Inr (Atoms ''CNO'')
      \<and> transform plain_env (Atoms ''CNO'') [S ''CCO'', S ''CCC'']
          = Inr \<lparr>nrows = 2, cols = [(''C'', [I 2, I 3]), (''N'', [I 0, I 0]), (''O'', [I 1, I 0])]\<rparr>
      \<and> nrows \<lparr>nrows = 2, cols = [(''C'', [I 2, I 3]), (''N'', [I 0, I 0]), (''O'', [I 1, I 0])]\<rparr>
          = length [S ''CCO'', S ''CCC'']
      \<and> ''ID'' \<notin> set (columns \<lparr>nrows = 2,
            cols = [(''C'', [I 2, I 3]), (''N'', [I 0, I 0]), (''O'', [I 1, I 0])]\<rparr>)
      \<and> write_error plain_env (files world1) (output_file rdkit_args2) = None"
    using read_table2
    by (simp add: rdkit_args2_def rdkit_args1_def plain_env_def frame2_def columns_def
        getcol_def count_table_def cell_text_def)
  have n: "[0..<nrows frame2] = [0, 1]"
    by (simp add: frame2_def upt_rec)
  from synthetic_ids [of plain_env world1 circus_args2 frame2 "[S ''CCO'', S ''CCC'']"
      "Atoms []" "Atoms ''OC''" "\<lparr>nrows = 2, cols = [(''O'', [I 1, I 0]), (''C'', [I 2, I 3])]\<rparr>"
      world1 rdkit_args2 frame2 "[S ''CCO'', S ''CCC'']" "Atoms ''CNO''"
      "\<lparr>nrows = 2, cols = [(''C'', [I 2, I 3]), (''N'', [I 0, I 0]), (''O'', [I 1, I 0])]\<rparr>"]
    a b n
  show ?thesis
    using read_table2
    by (simp add: circus_args2_def circus_args1_def rdkit_args2_def rdkit_args1_def
        frame2_def columns_def)
qed

subsection \<open>The shape of the written file\<close>






lemma rdkit_run1:
  "fst (rdkit plain_env rdkit_args1 world1) = Returned
   \<and> files (snd (rdkit plain_env rdkit_args1 world1)) ''out.csv''
       = Some (''ID,C,N,O'' @ [CHR 0x0A] @ ''m1,2,0,1'' @ [CHR 0x0A] @ ''m2,3,0,0'' @ [CHR 0x0A])
   \<and> map step_of (new_events world1 (snd (rdkit plain_env rdkit_args1 world1)))
       = [Load, Construct, Transform, Write]"
  by code_simp

lemma complex_run1:
  "fst (complex plain_env complex_args1 world1) = Returned
   \<and> files (snd (complex plain_env complex_args1 world1)) ''out.csv''
       = Some (''SMILES::C,SMILES::N,SMILES::O'' @ [CHR 0x0A] @ ''2,0,1'' @ [CHR 0x0A]
               @ ''3,0,0'' @ [CHR 0x0A])
   \<and> map step_of (new_events world1 (snd (complex plain_env complex_args1 world1)))
       = [Configure, Load, Construct, Transform, Write]"
  by code_simp



subsection \<open>The order of the steps\<close>

lemma circus_events:
  "(case read_csv env (files w) (input_file a) (separator a) of
      Inl e \<Rightarrow> new_events w (snd (circus env a w)) = [EvReadCsv (input_file a) (separator a)]
    | Inr df \<Rightarrow>
        (case getcol df (smiles_column a) of
           Inl e \<Rightarrow>
             prefix (new_events w (snd (circus env a w)))
               [EvReadCsv (input_file a) (separator a), EvNew ''ChythonCircus'']
         | Inr smi \<Rightarrow>
             prefix (new_events w (snd (circus env a w)))
               [EvReadCsv (input_file a) (separator a), EvNew ''ChythonCircus'',
                EvFit smi, EvTransform smi, EvToCsv (output_file a)]))"
proof -
  define q where "q = circus env (a\<lparr>verbose := False\<rparr>) w"
  have e: "new_events w (snd (circus env a w)) = new_events w (snd q)"
    unfolding q_def new_events_def using circus_quiet [of env a w] by simp
  obtain r w' where w': "q = (r, w')" by (cases q)
  from w' [unfolded q_def]
  have "(case read_csv env (files w) (input_file a) (separator a) of
      Inl e \<Rightarrow> new_events w w' = [EvReadCsv (input_file a) (separator a)]
    | Inr df \<Rightarrow>
        (case getcol df (smiles_column a) of
           Inl e \<Rightarrow>
             prefix (new_events w w')
               [EvReadCsv (input_file a) (separator a), EvNew ''ChythonCircus'']
         | Inr smi \<Rightarrow>
             prefix (new_events w w')
               [EvReadCsv (input_file a) (separator a), EvNew ''ChythonCircus'',
                EvFit smi, EvTransform smi, EvToCsv (output_file a)]))"
    by (auto simp: circus_def circus_body_def quiet_defs
        split: sum.splits if_splits option.splits)
  with e w' show ?thesis by (auto split: sum.splits)
qed

lemma rdkit_events:
  "(case read_csv env (files w) (input_file a) (separator a) of
      Inl e \<Rightarrow> new_events w (snd (rdkit env a w)) = [EvReadCsv (input_file a) (separator a)]
    | Inr df \<Rightarrow>
        (case getcol df (smiles_column a) of
           Inl e \<Rightarrow>
             prefix (new_events w (snd (rdkit env a w)))
               [EvReadCsv (input_file a) (separator a), EvNew ''Fingerprinter'']
         | Inr smi \<Rightarrow>
             prefix (new_events w (snd (rdkit env a w)))
               [EvReadCsv (input_file a) (separator a), EvNew ''Fingerprinter'',
                EvTransform smi, EvToCsv (output_file a)]))"
proof -
  define q where "q = rdkit env (a\<lparr>verbose := False\<rparr>) w"
  have e: "new_events w (snd (rdkit env a w)) = new_events w (snd q)"
    unfolding q_def new_events_def using rdkit_quiet [of env a w] by simp
  obtain r w' where w': "q = (r, w')" by (cases q)
  from w' [unfolded q_def]
  have "(case read_csv env (files w) (input_file a) (separator a) of
      Inl e \<Rightarrow> new_events w w' = [EvReadCsv (input_file a) (separator a)]
    | Inr df \<Rightarrow>
        (case getcol df (smiles_column a) of
           Inl e \<Rightarrow>
             prefix (new_events w w')
               [EvReadCsv (input_file a) (separator a), EvNew ''Fingerprinter'']
         | Inr smi \<Rightarrow>
             prefix (new_events w w')
               [EvReadCsv (input_file a) (separator a), EvNew ''Fingerprinter'',
                EvTransform smi, EvToCsv (output_file a)]))"
    by (auto simp: rdkit_def rdkit_body_def quiet_defs
        split: sum.splits if_splits option.splits)
  with e w' show ?thesis by (auto split: sum.splits)
qed

lemma complex_events:
  "(case json_load env (files w) (config_file a) of
      Inl e \<Rightarrow> new_events w (snd (complex env a w)) = [EvJsonLoad (config_file a)]
    | Inr cfg \<Rightarrow>
        (case read_csv env (files w) (input_file a) (separator a) of
           Inl e \<Rightarrow>
             new_events w (snd (complex env a w))
               = [EvJsonLoad (config_file a), EvReadCsv (input_file a) (separator a)]
         | Inr df \<Rightarrow>
             prefix (new_events w (snd (complex env a w)))
               [EvJsonLoad (config_file a), EvReadCsv (input_file a) (separator a),
                EvNew ''ComplexFragmentor'', EvTransformFrame df, EvToCsv (output_file a)]))"
proof -
  define q where "q = complex env (a\<lparr>verbose := False\<rparr>) w"
  have e: "new_events w (snd (complex env a w)) = new_events w (snd q)"
    unfolding q_def new_events_def using complex_quiet [of env a w] by simp
  obtain r w' where w': "q = (r, w')" by (cases q)
  from w' [unfolded q_def]
  have "(case json_load env (files w) (config_file a) of
      Inl e \<Rightarrow> new_events w w' = [EvJsonLoad (config_file a)]
    | Inr cfg \<Rightarrow>
        (case read_csv env (files w) (input_file a) (separator a) of
           Inl e \<Rightarrow>
             new_events w w'
               = [EvJsonLoad (config_file a), EvReadCsv (input_file a) (separator a)]
         | Inr df \<Rightarrow>
             prefix (new_events w w')
               [EvJsonLoad (config_file a), EvReadCsv (input_file a) (separator a),
                EvNew ''ComplexFragmentor'', EvTransformFrame df, EvToCsv (output_file a)]))"
    by (auto simp: complex_def complex_body_def quiet_defs
        split: sum.splits if_splits option.splits)
  with e w' show ?thesis by (auto split: sum.splits)
qed

lemma no_fit:
  assumes "prefix (map step_of evs) steps" and "Fit \<notin> set steps"
  shows "EvFit xs \<notin> set evs"
proof
  assume "EvFit xs \<in> set evs"
  then have "step_of (EvFit xs) \<in> set (map step_of evs)"
    by (simp only: set_map) (rule imageI)
  with assms show False
    using set_mono_prefix [OF assms(1)] by auto
qed

text \<open>
  C4, as the code has it. The collaborator calls of a \<^verbatim>\<open>circus\<close> run are, in this order,
  reading the table, constructing the calculator, \<open>fit\<close> on the structures of the loaded
  table, \<open>transform\<close> on the same structures, and the write: all five when the command
  returns, and an initial part of them when it fails. \<^verbatim>\<open>rdkit\<close> reads the table,
  constructs, transforms the structures of the loaded table and writes; \<^verbatim>\<open>complex\<close>
  reads the configuration, reads the table, constructs, transforms the loaded table and
  writes: neither calls \<open>fit\<close>. In all three the write is the last call.
\<close>

theorem steps_in_order:
  "(case read_csv env (files w) (input_file a) (separator a) of
      Inl e \<Rightarrow> new_events w (snd (circus env a w)) = [EvReadCsv (input_file a) (separator a)]
    | Inr df \<Rightarrow>
        (case getcol df (smiles_column a) of
           Inl e \<Rightarrow>
             prefix (new_events w (snd (circus env a w)))
               [EvReadCsv (input_file a) (separator a), EvNew ''ChythonCircus'']
         | Inr smi \<Rightarrow>
             prefix (new_events w (snd (circus env a w)))
               [EvReadCsv (input_file a) (separator a), EvNew ''ChythonCircus'',
                EvFit smi, EvTransform smi, EvToCsv (output_file a)]))
   \<and> (fst (circus env a w) = Returned \<longrightarrow>
        (\<exists>df smi. read_csv env (files w) (input_file a) (separator a) = Inr df
           \<and> getcol df (smiles_column a) = Inr smi
           \<and> new_events w (snd (circus env a w)) =
               [EvReadCsv (input_file a) (separator a), EvNew ''ChythonCircus'',
                EvFit smi, EvTransform smi, EvToCsv (output_file a)]))
   \<and> prefix (map step_of (new_events w (snd (circus env a w))))
      [Load, Construct, Fit, Transform, Write]
   \<and> (fst (circus env a w) = Returned \<longrightarrow>
        map step_of (new_events w (snd (circus env a w)))
          = [Load, Construct, Fit, Transform, Write])
   \<and> (case read_csv env (files v) (input_file b) (separator b) of
        Inl e \<Rightarrow> new_events v (snd (rdkit env b v)) = [EvReadCsv (input_file b) (separator b)]
      | Inr df \<Rightarrow>
          (case getcol df (smiles_column b) of
             Inl e \<Rightarrow>
               prefix (new_events v (snd (rdkit env b v)))
                 [EvReadCsv (input_file b) (separator b), EvNew ''Fingerprinter'']
           | Inr smi \<Rightarrow>
               prefix (new_events v (snd (rdkit env b v)))
                 [EvReadCsv (input_file b) (separator b), EvNew ''Fingerprinter'',
                  EvTransform smi, EvToCsv (output_file b)]))
   \<and> (fst (rdkit env b v) = Returned \<longrightarrow>
        (\<exists>df smi. read_csv env (files v) (input_file b) (separator b) = Inr df
           \<and> getcol df (smiles_column b) = Inr smi
           \<and> new_events v (snd (rdkit env b v)) =
               [EvReadCsv (input_file b) (separator b), EvNew ''Fingerprinter'',
                EvTransform smi, EvToCsv (output_file b)]))
   \<and> (\<forall>xs. EvFit xs \<notin> set (new_events v (snd (rdkit env b v))))
   \<and> prefix (map step_of (new_events v (snd (rdkit env b v))))
      [Load, Construct, Transform, Write]
   \<and> (fst (rdkit env b v) = Returned \<longrightarrow>
        map step_of (new_events v (snd (rdkit env b v))) = [Load, Construct, Transform, Write])
   \<and> (case json_load env (files u) (config_file c) of
        Inl e \<Rightarrow> new_events u (snd (complex env c u)) = [EvJsonLoad (config_file c)]
      | Inr cfg \<Rightarrow>
          (case read_csv env (files u) (input_file c) (separator c) of
             Inl e \<Rightarrow>
               new_events u (snd (complex env c u))
                 = [EvJsonLoad (config_file c), EvReadCsv (input_file c) (separator c)]
           | Inr df \<Rightarrow>
               prefix (new_events u (snd (complex env c u)))
                 [EvJsonLoad (config_file c), EvReadCsv (input_file c) (separator c),
                  EvNew ''ComplexFragmentor'', EvTransformFrame df, EvToCsv (output_file c)]))
   \<and> (fst (complex env c u) = Returned \<longrightarrow>
        (\<exists>df. read_csv env (files u) (input_file c) (separator c) = Inr df
           \<and> new_events u (snd (complex env c u)) =
               [EvJsonLoad (config_file c), EvReadCsv (input_file c) (separator c),
                EvNew ''ComplexFragmentor'', EvTransformFrame df, EvToCsv (output_file c)]))
   \<and> (\<forall>xs. EvFit xs \<notin> set (new_events u (snd (complex env c u))))
   \<and> prefix (map step_of (new_events u (snd (complex env c u))))
      [Configure, Load, Construct, Transform, Write]
   \<and> (fst (complex env c u) = Returned \<longrightarrow>
        map step_of (new_events u (snd (complex env c u)))
          = [Configure, Load, Construct, Transform, Write])"
proof (intro conjI impI allI)
  assume "fst (circus env a w) = Returned"
  from circus_success [OF this]
  show "\<exists>df smi. read_csv env (files w) (input_file a) (separator a) = Inr df
           \<and> getcol df (smiles_column a) = Inr smi
           \<and> new_events w (snd (circus env a w)) =
               [EvReadCsv (input_file a) (separator a), EvNew ''ChythonCircus'',
                EvFit smi, EvTransform smi, EvToCsv (output_file a)]"
    by blast
next
  assume "fst (circus env a w) = Returned"
  from circus_success [OF this]
  show "map step_of (new_events w (snd (circus env a w)))
      = [Load, Construct, Fit, Transform, Write]"
    by auto
next
  assume "fst (rdkit env b v) = Returned"
  from rdkit_success [OF this]
  show "\<exists>df smi. read_csv env (files v) (input_file b) (separator b) = Inr df
           \<and> getcol df (smiles_column b) = Inr smi
           \<and> new_events v (snd (rdkit env b v)) =
               [EvReadCsv (input_file b) (separator b), EvNew ''Fingerprinter'',
                EvTransform smi, EvToCsv (output_file b)]"
    by blast
next
  assume "fst (rdkit env b v) = Returned"
  from rdkit_success [OF this]
  show "map step_of (new_events v (snd (rdkit env b v))) = [Load, Construct, Transform, Write]"
    by auto
next
  fix xs
  show "EvFit xs \<notin> set (new_events v (snd (rdkit env b v)))"
    by (rule no_fit [of _ "[Load, Construct, Transform, Write]"]) (simp_all add: rdkit_steps)
next
  assume "fst (complex env c u) = Returned"
  from complex_success [OF this]
  show "\<exists>df. read_csv env (files u) (input_file c) (separator c) = Inr df
           \<and> new_events u (snd (complex env c u)) =
               [EvJsonLoad (config_file c), EvReadCsv (input_file c) (separator c),
                EvNew ''ComplexFragmentor'', EvTransformFrame df, EvToCsv (output_file c)]"
    by blast
next
  assume "fst (complex env c u) = Returned"
  from complex_success [OF this]
  show "map step_of (new_events u (snd (complex env c u)))
      = [Configure, Load, Construct, Transform, Write]"
    by auto
next
  fix xs
  show "EvFit xs \<notin> set (new_events u (snd (complex env c u)))"
    by (rule no_fit [of _ "[Configure, Load, Construct, Transform, Write]"])
       (simp_all add: complex_steps)
qed (simp_all add: circus_steps rdkit_steps complex_steps circus_events rdkit_events
      complex_events)

theorem steps_in_order_witness:
  "fst (circus plain_env circus_args1 world1) = Returned
   \<and> new_events world1 (snd (circus plain_env circus_args1 world1))
       = [EvReadCsv ''mols.tsv'' [CHR 0x09], EvNew ''ChythonCircus'',
          EvFit [S ''CCO'', S ''CCC''], EvTransform [S ''CCO'', S ''CCC''], EvToCsv ''out.csv'']
   \<and> map step_of (new_events world1 (snd (circus plain_env circus_args1 world1)))
       = [Load, Construct, Fit, Transform, Write]
   \<and> fst (rdkit plain_env rdkit_args1 world1) = Returned
   \<and> new_events world1 (snd (rdkit plain_env rdkit_args1 world1))
       = [EvReadCsv ''mols.tsv'' [CHR 0x09], EvNew ''Fingerprinter'',
          EvTransform [S ''CCO'', S ''CCC''], EvToCsv ''out.csv'']
   \<and> map step_of (new_events world1 (snd (rdkit plain_env rdkit_args1 world1)))
       = [Load, Construct, Transform, Write]
   \<and> fst (complex plain_env complex_args1 world1) = Returned
   \<and> new_events world1 (snd (complex plain_env complex_args1 world1))
       = [EvJsonLoad ''cfg.json'', EvReadCsv ''mols.tsv'' [CHR 0x09],
          EvNew ''ComplexFragmentor'', EvTransformFrame frame1, EvToCsv ''out.csv'']
   \<and> map step_of (new_events world1 (snd (complex plain_env complex_args1 world1)))
       = [Configure, Load, Construct, Transform, Write]"
proof -
  have r: "fst (circus plain_env circus_args1 world1) = Returned"
    "fst (rdkit plain_env rdkit_args1 world1) = Returned"
    "fst (complex plain_env complex_args1 world1) = Returned"
    using circus_run1 rdkit_run1 complex_run1 by simp_all
  have g: "getcol frame1 ''SMILES'' = Inr [S ''CCO'', S ''CCC'']"
    by (simp add: getcol_def frame1_def)
  have o: "input_file circus_args1 = ''mols.tsv''" "separator circus_args1 = [CHR 0x09]"
    "smiles_column circus_args1 = ''SMILES''" "output_file circus_args1 = ''out.csv''"
    "input_file rdkit_args1 = ''mols.tsv''" "separator rdkit_args1 = [CHR 0x09]"
    "smiles_column rdkit_args1 = ''SMILES''" "output_file rdkit_args1 = ''out.csv''"
    "input_file complex_args1 = ''mols.tsv''" "separator complex_args1 = [CHR 0x09]"
    "config_file complex_args1 = ''cfg.json''" "output_file complex_args1 = ''out.csv''"
    by (simp_all add: circus_args1_def rdkit_args1_def complex_args1_def)
  note t = steps_in_order [where env = plain_env and w = world1 and a = circus_args1
      and v = world1 and b = rdkit_args1 and u = world1 and c = complex_args1]
  from t r(1) obtain df smi where
    a: "read_csv plain_env (files world1) (input_file circus_args1) (separator circus_args1) = Inr df"
      "getcol df (smiles_column circus_args1) = Inr smi"
      "new_events world1 (snd (circus plain_env circus_args1 world1)) =
         [EvReadCsv (input_file circus_args1) (separator circus_args1), EvNew ''ChythonCircus'',
          EvFit smi, EvTransform smi, EvToCsv (output_file circus_args1)]"
    by blast
  from a(1) read_table1 have "df = frame1" by (simp add: o)
  with a(2) g have "smi = [S ''CCO'', S ''CCC'']" by (simp add: o)
  with a(3) have A: "new_events world1 (snd (circus plain_env circus_args1 world1))
       = [EvReadCsv ''mols.tsv'' [CHR 0x09], EvNew ''ChythonCircus'',
          EvFit [S ''CCO'', S ''CCC''], EvTransform [S ''CCO'', S ''CCC''], EvToCsv ''out.csv'']"
    by (simp add: o)
  from t r(2) obtain dg smj where
    b: "read_csv plain_env (files world1) (input_file rdkit_args1) (separator rdkit_args1) = Inr dg"
      "getcol dg (smiles_column rdkit_args1) = Inr smj"
      "new_events world1 (snd (rdkit plain_env rdkit_args1 world1)) =
         [EvReadCsv (input_file rdkit_args1) (separator rdkit_args1), EvNew ''Fingerprinter'',
          EvTransform smj, EvToCsv (output_file rdkit_args1)]"
    by blast
  from b(1) read_table1 have "dg = frame1" by (simp add: o)
  with b(2) g have "smj = [S ''CCO'', S ''CCC'']" by (simp add: o)
  with b(3) have B: "new_events world1 (snd (rdkit plain_env rdkit_args1 world1))
       = [EvReadCsv ''mols.tsv'' [CHR 0x09], EvNew ''Fingerprinter'',
          EvTransform [S ''CCO'', S ''CCC''], EvToCsv ''out.csv'']"
    by (simp add: o)
  from t r(3) obtain dh where
    c: "read_csv plain_env (files world1) (input_file complex_args1) (separator complex_args1) = Inr dh"
      "new_events world1 (snd (complex plain_env complex_args1 world1)) =
         [EvJsonLoad (config_file complex_args1),
          EvReadCsv (input_file complex_args1) (separator complex_args1),
          EvNew ''ComplexFragmentor'', EvTransformFrame dh, EvToCsv (output_file complex_args1)]"
    by blast
  from c(1) read_table1 have "dh = frame1" by (simp add: o)
  with c(2) have C: "new_events world1 (snd (complex plain_env complex_args1 world1))
       = [EvJsonLoad ''cfg.json'', EvReadCsv ''mols.tsv'' [CHR 0x09],
          EvNew ''ComplexFragmentor'', EvTransformFrame frame1, EvToCsv ''out.csv'']"
    by (simp add: o)
  from r A B C show ?thesis
    by simp
qed

text \<open>
  A run of \<^verbatim>\<open>rdkit\<close> that returns, with its four calls: no \<open>fit\<close> among them.
\<close>

theorem rdkit_never_fits:
  "fst (rdkit plain_env rdkit_args1 world1) = Returned
   \<and> new_events world1 (snd (rdkit plain_env rdkit_args1 world1))
       = [EvReadCsv ''mols.tsv'' [CHR 0x09], EvNew ''Fingerprinter'',
          EvTransform [S ''CCO'', S ''CCC''], EvToCsv ''out.csv'']
   \<and> Fit \<notin> set (map step_of (new_events world1 (snd (rdkit plain_env rdkit_args1 world1))))"
  by code_simp

subsection \<open>A missing structure column\<close>

lemma circus_missing:
  assumes "read_csv env (files w) (input_file a) (separator a) = Inr df"
    and "smiles_column a \<notin> set (columns df)"
  shows "fst (circus env a w) = ClickException
           (''Error calculating CircuS descriptors: Column '' @ [CHR 0x27] @ smiles_column a
            @ [CHR 0x27] @ '' not found in input file'')"
proof -
  have "fst (circus env (a\<lparr>verbose := False\<rparr>) w) = ClickException
           (''Error calculating CircuS descriptors: Column '' @ [CHR 0x27] @ smiles_column a
            @ [CHR 0x27] @ '' not found in input file'')"
    using assms by (simp add: circus_def circus_body_def quiet_defs)
  then show ?thesis
    using circus_quiet [of env a w] by simp
qed

lemma rdkit_missing:
  assumes "read_csv env (files w) (input_file a) (separator a) = Inr df"
    and "smiles_column a \<notin> set (columns df)"
  shows "fst (rdkit env a w) = ClickException
           (''Error calculating RDKit descriptors: Column '' @ [CHR 0x27] @ smiles_column a
            @ [CHR 0x27] @ '' not found in input file'')"
proof -
  have "fst (rdkit env (a\<lparr>verbose := False\<rparr>) w) = ClickException
           (''Error calculating RDKit descriptors: Column '' @ [CHR 0x27] @ smiles_column a
            @ [CHR 0x27] @ '' not found in input file'')"
    using assms by (simp add: rdkit_def rdkit_body_def quiet_defs)
  then show ?thesis
    using rdkit_quiet [of env a w] by simp
qed

text \<open>
  The outcome of \<^verbatim>\<open>complex\<close> is decided by what its five collaborators return, in the
  order in which they are called, and by nothing else.
\<close>

lemma complex_outcome:
  "fst (complex env a w) =
     (case json_load env (files w) (config_file a) of
        Inl e \<Rightarrow> ClickException (''Error calculating complex descriptors: '' @ e)
      | Inr cfg \<Rightarrow>
     (case read_csv env (files w) (input_file a) (separator a) of
        Inl e \<Rightarrow> ClickException (''Error calculating complex descriptors: '' @ e)
      | Inr df \<Rightarrow>
     (case ComplexFragmentor env cfg of
        Inl e \<Rightarrow> ClickException (''Error calculating complex descriptors: '' @ e)
      | Inr d \<Rightarrow>
     (case transform_frame env d df of
        Inl e \<Rightarrow> ClickException (''Error calculating complex descriptors: '' @ e)
      | Inr feats \<Rightarrow>
     (case write_error env (files w) (output_file a) of
        Some e \<Rightarrow> ClickException (''Error calculating complex descriptors: '' @ e)
      | None \<Rightarrow> Returned)))))"
proof -
  have "fst (complex env (a\<lparr>verbose := False\<rparr>) w) =
     (case json_load env (files w) (config_file a) of
        Inl e \<Rightarrow> ClickException (''Error calculating complex descriptors: '' @ e)
      | Inr cfg \<Rightarrow>
     (case read_csv env (files w) (input_file a) (separator a) of
        Inl e \<Rightarrow> ClickException (''Error calculating complex descriptors: '' @ e)
      | Inr df \<Rightarrow>
     (case ComplexFragmentor env cfg of
        Inl e \<Rightarrow> ClickException (''Error calculating complex descriptors: '' @ e)
      | Inr d \<Rightarrow>
     (case transform_frame env d df of
        Inl e \<Rightarrow> ClickException (''Error calculating complex descriptors: '' @ e)
      | Inr feats \<Rightarrow>
     (case write_error env (files w) (output_file a) of
        Some e \<Rightarrow> ClickException (''Error calculating complex descriptors: '' @ e)
      | None \<Rightarrow> Returned)))))"
    by (simp add: complex_def complex_body_def quiet_defs split: sum.splits option.splits)
  then show ?thesis
    using complex_quiet [of env a w] by simp
qed

text \<open>
  C2, as the code has it. \<^verbatim>\<open>circus\<close> and \<^verbatim>\<open>rdkit\<close> check the loaded table for the
  configured structure column: when it is absent the command fails with the one message
  \<open>Column '<name>' not found in input file\<close> behind the name of the operation, the exit
  code is 1 and no file is written. \<^verbatim>\<open>complex\<close> has no structure column option and
  checks nothing itself: whether it returns or fails is decided by its collaborators alone.
  It fails exactly when one of them raises, the first that does in the order loading the
  configuration, reading the table, constructing the fragmentor, \<open>transform\<close>, writing;
  the message is the text of that error behind the name of the operation, the exit code
  is 1 and no file is written. When all five return, the command returns.
\<close>

theorem missing_structure_column:
  "(read_csv env (files w) (input_file a) (separator a) = Inr df
      \<and> smiles_column a \<notin> set (columns df)
    \<longrightarrow> fst (circus env a w) = ClickException
           (''Error calculating CircuS descriptors: Column '' @ [CHR 0x27] @ smiles_column a
            @ [CHR 0x27] @ '' not found in input file'')
      \<and> exit_code (fst (circus env a w)) = 1
      \<and> files (snd (circus env a w)) = files w)
   \<and> (read_csv env (files v) (input_file b) (separator b) = Inr dg
      \<and> smiles_column b \<notin> set (columns dg)
    \<longrightarrow> fst (rdkit env b v) = ClickException
           (''Error calculating RDKit descriptors: Column '' @ [CHR 0x27] @ smiles_column b
            @ [CHR 0x27] @ '' not found in input file'')
      \<and> exit_code (fst (rdkit env b v)) = 1
      \<and> files (snd (rdkit env b v)) = files v)
   \<and> fst (complex env c u) =
       (case json_load env (files u) (config_file c) of
          Inl e \<Rightarrow> ClickException (''Error calculating complex descriptors: '' @ e)
        | Inr cfg \<Rightarrow>
       (case read_csv env (files u) (input_file c) (separator c) of
          Inl e \<Rightarrow> ClickException (''Error calculating complex descriptors: '' @ e)
        | Inr dh \<Rightarrow>
       (case ComplexFragmentor env cfg of
          Inl e \<Rightarrow> ClickException (''Error calculating complex descriptors: '' @ e)
        | Inr d \<Rightarrow>
       (case transform_frame env d dh of
          Inl e \<Rightarrow> ClickException (''Error calculating complex descriptors: '' @ e)
        | Inr feats \<Rightarrow>
       (case write_error env (files u) (output_file c) of
          Some e \<Rightarrow> ClickException (''Error calculating complex descriptors: '' @ e)
        | None \<Rightarrow> Returned)))))
   \<and> (fst (complex env c u) = ClickException m
    \<longrightarrow> exit_code (fst (complex env c u)) = 1
      \<and> files (snd (complex env c u)) = files u
      \<and> (\<exists>e. fst (complex_body env c u) = Inl e
            \<and> m = ''Error calculating complex descriptors: '' @ e))
   \<and> (json_load env (files u) (config_file c) = Inr cfg
      \<and> read_csv env (files u) (input_file c) (separator c) = Inr dh
      \<and> ComplexFragmentor env cfg = Inr d
      \<and> transform_frame env d dh = Inl e
    \<longrightarrow> fst (complex env c u) = ClickException (''Error calculating complex descriptors: '' @ e))
   \<and> (json_load env (files u) (config_file c) = Inr cfg
      \<and> read_csv env (files u) (input_file c) (separator c) = Inr dh
      \<and> ComplexFragmentor env cfg = Inr d
      \<and> transform_frame env d dh = Inr feats
      \<and> write_error env (files u) (output_file c) = None
    \<longrightarrow> fst (complex env c u) = Returned
      \<and> files (snd (complex env c u)) = (files u)(output_file c \<mapsto> to_csv_text feats))"
proof (intro conjI impI)
  assume h: "read_csv env (files w) (input_file a) (separator a) = Inr df
      \<and> smiles_column a \<notin> set (columns df)"
  then show r: "fst (circus env a w) = ClickException
           (''Error calculating CircuS descriptors: Column '' @ [CHR 0x27] @ smiles_column a
            @ [CHR 0x27] @ '' not found in input file'')"
    by (simp add: circus_missing)
  then show "exit_code (fst (circus env a w)) = 1" by simp
  from r show "files (snd (circus env a w)) = files w" by (rule circus_failure_files)
next
  assume h: "read_csv env (files v) (input_file b) (separator b) = Inr dg
      \<and> smiles_column b \<notin> set (columns dg)"
  then show r: "fst (rdkit env b v) = ClickException
           (''Error calculating RDKit descriptors: Column '' @ [CHR 0x27] @ smiles_column b
            @ [CHR 0x27] @ '' not found in input file'')"
    by (simp add: rdkit_missing)
  then show "exit_code (fst (rdkit env b v)) = 1" by simp
  from r show "files (snd (rdkit env b v)) = files v" by (rule rdkit_failure_files)
next
  show "fst (complex env c u) =
       (case json_load env (files u) (config_file c) of
          Inl e \<Rightarrow> ClickException (''Error calculating complex descriptors: '' @ e)
        | Inr cfg \<Rightarrow>
       (case read_csv env (files u) (input_file c) (separator c) of
          Inl e \<Rightarrow> ClickException (''Error calculating complex descriptors: '' @ e)
        | Inr dh \<Rightarrow>
       (case ComplexFragmentor env cfg of
          Inl e \<Rightarrow> ClickException (''Error calculating complex descriptors: '' @ e)
        | Inr d \<Rightarrow>
       (case transform_frame env d dh of
          Inl e \<Rightarrow> ClickException (''Error calculating complex descriptors: '' @ e)
        | Inr feats \<Rightarrow>
       (case write_error env (files u) (output_file c) of
          Some e \<Rightarrow> ClickException (''Error calculating complex descriptors: '' @ e)
        | None \<Rightarrow> Returned)))))"
    by (rule complex_outcome)
next
  assume f: "fst (complex env c u) = ClickException m"
  then show "exit_code (fst (complex env c u)) = 1" by simp
  from f show "files (snd (complex env c u)) = files u" by (rule complex_failure_files)
  from f show "\<exists>e. fst (complex_body env c u) = Inl e
            \<and> m = ''Error calculating complex descriptors: '' @ e"
    by (simp add: complex_def click_failure)
next
  assume "json_load env (files u) (config_file c) = Inr cfg
      \<and> read_csv env (files u) (input_file c) (separator c) = Inr dh
      \<and> ComplexFragmentor env cfg = Inr d
      \<and> transform_frame env d dh = Inl e"
  then show "fst (complex env c u) = ClickException (''Error calculating complex descriptors: '' @ e)"
    by (simp add: complex_outcome)
next
  assume h: "json_load env (files u) (config_file c) = Inr cfg
      \<and> read_csv env (files u) (input_file c) (separator c) = Inr dh
      \<and> ComplexFragmentor env cfg = Inr d
      \<and> transform_frame env d dh = Inr feats
      \<and> write_error env (files u) (output_file c) = None"
  then show r: "fst (complex env c u) = Returned"
    by (simp add: complex_outcome)
  from complex_success [OF r] h
  show "files (snd (complex env c u)) = (files u)(output_file c \<mapsto> to_csv_text feats)"
    by auto
qed

lemma read_table3: "read_csv plain_env (files world1) ''ids.tsv'' [CHR 0x09] = Inr frame3"
  by (simp add: plain_env_def world1_def world0_def plain_table_def table3_def frame3_def)

lemma load_config1: "json_load plain_env (files world1) ''cfg.json'' = Inr config1"
  by (simp add: plain_env_def world1_def world0_def)

lemma complex_parts1:
  "json_load plain_env (files world1) (config_file complex_args1) = Inr config1
   \<and> read_csv plain_env (files world1) (input_file complex_args1) (separator complex_args1)
       = Inr frame1
   \<and> ComplexFragmentor plain_env config1 = Inr (Composite [''SMILES''])
   \<and> transform_frame plain_env (Composite [''SMILES'']) frame1
       = Inr \<lparr>nrows = 2, cols = [(''SMILES::C'', [I 2, I 3]), (''SMILES::N'', [I 0, I 0]),
                                  (''SMILES::O'', [I 1, I 0])]\<rparr>
   \<and> write_error plain_env (files world1) (output_file complex_args1) = None"
  by code_simp

lemma complex_run3:
  "fst (complex plain_env complex_args3 world1)
     = ClickException (''Error calculating complex descriptors: '' @ [CHR 0x27] @ ''SMILES'' @ [CHR 0x27])"
  by code_simp

theorem missing_structure_column_witness:
  "read_csv plain_env (files world1) ''mols.tsv'' [CHR 0x09] = Inr frame1
   \<and> ''smiles'' \<notin> set (columns frame1)
   \<and> fst (circus plain_env circus_args3 world1) = ClickException
        (''Error calculating CircuS descriptors: Column '' @ [CHR 0x27] @ ''smiles''
         @ [CHR 0x27] @ '' not found in input file'')
   \<and> files (snd (circus plain_env circus_args3 world1)) = files world1
   \<and> fst (rdkit plain_env rdkit_args3 world1) = ClickException
        (''Error calculating RDKit descriptors: Column '' @ [CHR 0x27] @ ''smiles''
         @ [CHR 0x27] @ '' not found in input file'')
   \<and> files (snd (rdkit plain_env rdkit_args3 world1)) = files world1
   \<and> json_load plain_env (files world1) ''cfg.json'' = Inr config1
   \<and> read_csv plain_env (files world1) ''ids.tsv'' [CHR 0x09] = Inr frame3
   \<and> ComplexFragmentor plain_env config1 = Inr (Composite [''SMILES''])
   \<and> transform_frame plain_env (Composite [''SMILES'']) frame3
        = Inl ([CHR 0x27] @ ''SMILES'' @ [CHR 0x27])
   \<and> fst (complex plain_env complex_args3 world1) = ClickException
        (''Error calculating complex descriptors: '' @ [CHR 0x27] @ ''SMILES'' @ [CHR 0x27])
   \<and> files (snd (complex plain_env complex_args3 world1)) = files world1
   \<and> read_csv plain_env (files world1) ''mols.tsv'' [CHR 0x09] = Inr frame1
   \<and> transform_frame plain_env (Composite [''SMILES'']) frame1
        = Inr \<lparr>nrows = 2, cols = [(''SMILES::C'', [I 2, I 3]), (''SMILES::N'', [I 0, I 0]),
                                   (''SMILES::O'', [I 1, I 0])]\<rparr>
   \<and> write_error plain_env (files world1) ''out.csv'' = None
   \<and> fst (complex plain_env complex_args1 world1) = Returned
   \<and> files (snd (complex plain_env complex_args1 world1)) ''out.csv''
        = Some (to_csv_text \<lparr>nrows = 2, cols = [(''SMILES::C'', [I 2, I 3]),
                   (''SMILES::N'', [I 0, I 0]), (''SMILES::O'', [I 1, I 0])]\<rparr>)"
proof -
  have a: "read_csv plain_env (files world1) (input_file circus_args3) (separator circus_args3)
        = Inr frame1 \<and> smiles_column circus_args3 \<notin> set (columns frame1)"
    using read_table1 by (simp add: circus_args3_def circus_args1_def frame1_def columns_def)
  have b: "read_csv plain_env (files world1) (input_file rdkit_args3) (separator rdkit_args3)
        = Inr frame1 \<and> smiles_column rdkit_args3 \<notin> set (columns frame1)"
    using read_table1 by (simp add: rdkit_args3_def rdkit_args1_def frame1_def columns_def)
  have d: "json_load plain_env (files world1) (config_file complex_args3) = Inr config1
      \<and> read_csv plain_env (files world1) (input_file complex_args3) (separator complex_args3)
          = Inr frame3
      \<and> ComplexFragmentor plain_env config1 = Inr (Composite [''SMILES''])
      \<and> transform_frame plain_env (Composite [''SMILES'']) frame3
          = Inl ([CHR 0x27] @ ''SMILES'' @ [CHR 0x27])"
    using read_table3 load_config1
    by (simp add: complex_args3_def complex_args1_def plain_env_def config1_def frame3_def
        getcol_def new_composite_def)
  note t = missing_structure_column [of plain_env world1 circus_args3 frame1 world1 rdkit_args3
      frame1 complex_args3 world1
      "''Error calculating complex descriptors: '' @ [CHR 0x27] @ ''SMILES'' @ [CHR 0x27]"
      config1 frame3 "Composite [''SMILES'']" "[CHR 0x27] @ ''SMILES'' @ [CHR 0x27]"]
  from t d have c: "fst (complex plain_env complex_args3 world1) = ClickException
        (''Error calculating complex descriptors: '' @ [CHR 0x27] @ ''SMILES'' @ [CHR 0x27])"
    by blast
  let ?F = "\<lparr>nrows = 2, cols = [(''SMILES::C'', [I 2, I 3]), (''SMILES::N'', [I 0, I 0]),
                                 (''SMILES::O'', [I 1, I 0])]\<rparr>"
  note t' = missing_structure_column [where env = plain_env and c = complex_args1 and u = world1
      and cfg = config1 and dh = frame1 and d = "Composite [''SMILES'']" and feats = ?F]
  from t' complex_parts1
  have s: "fst (complex plain_env complex_args1 world1) = Returned
      \<and> files (snd (complex plain_env complex_args1 world1))
          = (files world1)(output_file complex_args1 \<mapsto> to_csv_text ?F)"
    by blast
  have o: "output_file complex_args1 = ''out.csv''" "input_file complex_args1 = ''mols.tsv''"
    "separator complex_args1 = [CHR 0x09]"
    by (simp_all add: complex_args1_def)
  from s have s': "fst (complex plain_env complex_args1 world1) = Returned
      \<and> files (snd (complex plain_env complex_args1 world1)) ''out.csv'' = Some (to_csv_text ?F)"
    by (simp add: o)
  from complex_parts1 have p: "transform_frame plain_env (Composite [''SMILES'']) frame1 = Inr ?F
      \<and> write_error plain_env (files world1) ''out.csv'' = None"
    by (simp add: o)
  from t a b c d
  have "read_csv plain_env (files world1) ''mols.tsv'' [CHR 0x09] = Inr frame1
   \<and> ''smiles'' \<notin> set (columns frame1)
   \<and> fst (circus plain_env circus_args3 world1) = ClickException
        (''Error calculating CircuS descriptors: Column '' @ [CHR 0x27] @ ''smiles''
         @ [CHR 0x27] @ '' not found in input file'')
   \<and> files (snd (circus plain_env circus_args3 world1)) = files world1
   \<and> fst (rdkit plain_env rdkit_args3 world1) = ClickException
        (''Error calculating RDKit descriptors: Column '' @ [CHR 0x27] @ ''smiles''
         @ [CHR 0x27] @ '' not found in input file'')
   \<and> files (snd (rdkit plain_env rdkit_args3 world1)) = files world1
   \<and> json_load plain_env (files world1) ''cfg.json'' = Inr config1
   \<and> read_csv plain_env (files world1) ''ids.tsv'' [CHR 0x09] = Inr frame3
   \<and> ComplexFragmentor plain_env config1 = Inr (Composite [''SMILES''])
   \<and> transform_frame plain_env (Composite [''SMILES'']) frame3
        = Inl ([CHR 0x27] @ ''SMILES'' @ [CHR 0x27])
   \<and> fst (complex plain_env complex_args3 world1) = ClickException
        (''Error calculating complex descriptors: '' @ [CHR 0x27] @ ''SMILES'' @ [CHR 0x27])
   \<and> files (snd (complex plain_env complex_args3 world1)) = files world1"
    using read_table1
    by (simp add: circus_args3_def circus_args1_def rdkit_args3_def rdkit_args1_def
        complex_args3_def complex_args1_def frame1_def columns_def)
  with s' p read_table1 show ?thesis
    by (intro conjI) simp_all
qed

text \<open>
  A \<^verbatim>\<open>complex\<close> run with the configuration that \<^verbatim>\<open>init\<close> writes, whose structure column
  is \<open>molecules\<close>, on a table that has no such column. The constructor of the fragmentor
  takes the two keywords \<open>associator\<close> and \<open>structure_columns\<close>, and the configuration
  has the key \<open>name\<close> first: the command fails at the constructor, before the table is
  looked at, and the one message it prints does not mention the column.
\<close>

theorem complex_message_without_column:
  "json_load plain_env (files world1) ''init.json'' = Inr (init_config cfg_complex)
   \<and> member (init_config cfg_complex) ''structure_columns'' = Some (JList [JStr ''molecules''])
   \<and> read_csv plain_env (files world1) ''mols.tsv'' [CHR 0x09] = Inr frame1
   \<and> ''molecules'' \<notin> set (columns frame1)
   \<and> fst (complex plain_env complex_args4 world1) = ClickException
        (''Error calculating complex descriptors: ''
         @ ''ComplexFragmentor.__init__() got an unexpected keyword argument ''
         @ [CHR 0x27] @ ''name'' @ [CHR 0x27])
   \<and> \<not> sublist ''molecules''
        (''Error calculating complex descriptors: ''
         @ ''ComplexFragmentor.__init__() got an unexpected keyword argument ''
         @ [CHR 0x27] @ ''name'' @ [CHR 0x27])"
  by code_simp

subsection \<open>The configuration written by init\<close>

lemma init_computed:
  assumes "write_error env (files w) path = None"
  shows "fst (init env t path w) = Returned
       \<and> files (snd (init env t path w)) = (files w)(path \<mapsto> dumps 0 (init_config t))"
  using assms by (simp add: init_def init_body_def quiet_defs echo_def)

text \<open>
  C8. \<^verbatim>\<open>init\<close> with descriptor type \<open>complex\<close>, when the file can be written, writes the
  JSON text of a document whose key \<open>associator\<close> holds a list of pairs of a column name
  and a transformer specification, whose key \<open>structure_columns\<close> holds a list of column
  names, and whose key \<open>fmt\<close> holds a string.
\<close>

theorem init_complex_config:
  assumes "write_error env (files w) path = None"
  shows "fst (init env cfg_complex path w) = Returned
       \<and> (\<exists>doc assoc names notation.
             files (snd (init env cfg_complex path w)) path = Some (dumps 0 doc)
           \<and> member doc ''associator'' = Some assoc \<and> is_pair_list assoc
           \<and> assoc = JList [JList [JStr ''molecules'',
                 JObj [(''type'', JStr ''circus''), (''lower'', JInt 0), (''upper'', JInt 2)]]]
           \<and> member doc ''structure_columns'' = Some names \<and> is_name_list names
           \<and> names = JList [JStr ''molecules'']
           \<and> member doc ''fmt'' = Some (JStr notation)
           \<and> notation = ''smiles'')"
proof -
  let ?doc = "init_config cfg_complex"
  let ?assoc = "JList [JList [JStr ''molecules'',
                 JObj [(''type'', JStr ''circus''), (''lower'', JInt 0), (''upper'', JInt 2)]]]"
  from init_computed [OF assms, of cfg_complex]
  have r: "fst (init env cfg_complex path w) = Returned"
    and f: "files (snd (init env cfg_complex path w)) path = Some (dumps 0 ?doc)"
    by (simp_all del: init_config.simps dumps.simps)
  have a: "member ?doc ''associator'' = Some ?assoc" by simp
  have b: "member ?doc ''structure_columns'' = Some (JList [JStr ''molecules''])" by simp
  have c: "member ?doc ''fmt'' = Some (JStr ''smiles'')" by simp
  have p: "is_pair_list ?assoc" by simp
  have n: "is_name_list (JList [JStr ''molecules''])" by simp
  from r f a b c p n show ?thesis by blast
qed

text \<open>The text of that document, as \<^verbatim>\<open>json.dumps(config, indent=2)\<close> prints it.\<close>

lemma init_complex_text:
  "dumps 0 (init_config cfg_complex) =
   ''{'' @ [CHR 0x0A] @ ''  '' @ [CHR 0x22] @ ''name'' @ [CHR 0x22] @ '': '' @ [CHR 0x22]
     @ ''Complex Multi-Column Descriptors'' @ [CHR 0x22] @ '','' @ [CHR 0x0A] @ ''  ''
     @ [CHR 0x22] @ ''description'' @ [CHR 0x22] @ '': '' @ [CHR 0x22]
     @ ''ComplexFragmentor for multiple molecular columns'' @ [CHR 0x22] @ '',''
     @ [CHR 0x0A] @ ''  '' @ [CHR 0x22] @ ''associator'' @ [CHR 0x22] @ '': [''
     @ [CHR 0x0A] @ ''    ['' @ [CHR 0x0A] @ ''      '' @ [CHR 0x22] @ ''molecules''
     @ [CHR 0x22] @ '','' @ [CHR 0x0A] @ ''      {'' @ [CHR 0x0A] @ ''        ''
     @ [CHR 0x22] @ ''type'' @ [CHR 0x22] @ '': '' @ [CHR 0x22] @ ''circus'' @ [CHR 0x22]
     @ '','' @ [CHR 0x0A] @ ''        '' @ [CHR 0x22] @ ''lower'' @ [CHR 0x22] @ '': 0,''
     @ [CHR 0x0A] @ ''        '' @ [CHR 0x22] @ ''upper'' @ [CHR 0x22] @ '': 2''
     @ [CHR 0x0A] @ ''      }'' @ [CHR 0x0A] @ ''    ]'' @ [CHR 0x0A] @ ''  ],''
     @ [CHR 0x0A] @ ''  '' @ [CHR 0x22] @ ''structure_columns'' @ [CHR 0x22] @ '': [''
     @ [CHR 0x0A] @ ''    '' @ [CHR 0x22] @ ''molecules'' @ [CHR 0x22] @ [CHR 0x0A]
     @ ''  ],'' @ [CHR 0x0A] @ ''  '' @ [CHR 0x22] @ ''fmt'' @ [CHR 0x22] @ '': ''
     @ [CHR 0x22] @ ''smiles'' @ [CHR 0x22] @ [CHR 0x0A] @ ''}''"
  by code_simp

theorem init_complex_config_witness:
  "write_error plain_env (files world0) ''doptools_config.json'' = None
   \<and> fst (init plain_env cfg_complex ''doptools_config.json'' world0) = Returned
   \<and> (\<exists>doc. files (snd (init plain_env cfg_complex ''doptools_config.json'' world0))
               ''doptools_config.json'' = Some (dumps 0 doc)
           \<and> member doc ''associator''
               = Some (JList [JList [JStr ''molecules'',
                   JObj [(''type'', JStr ''circus''), (''lower'', JInt 0), (''upper'', JInt 2)]]])
           \<and> member doc ''structure_columns'' = Some (JList [JStr ''molecules''])
           \<and> member doc ''fmt'' = Some (JStr ''smiles''))"
proof -
  have h: "write_error plain_env (files world0) ''doptools_config.json'' = None"
    by (simp add: plain_env_def)
  from init_complex_config [OF h] h show ?thesis
    by auto
qed

subsection \<open>Atom colouring: what is called before explain\<close>

lemmas run_defs = quiet_defs echo_def new_events_def


lemma coloratom_calls:
  "prefix (new_events w (snd (coloratom env a w)))
     ((case descriptor_kind a of
         dt_circus \<Rightarrow> [EvPickleLoad (model_file a), EvNew ''ChythonCircus'',
                       EvFit [S (smiles a)], EvColorAtom, EvExplain (smiles a)]
       | dt_morgan \<Rightarrow> [EvPickleLoad (model_file a), EvNew ''Fingerprinter'',
                       EvColorAtom, EvExplain (smiles a)]
       | dt_rdkfp \<Rightarrow> [EvPickleLoad (model_file a), EvNew ''Fingerprinter'',
                      EvColorAtom, EvExplain (smiles a)])
      @ (if truthy (image_file a) then [EvSavefig (the (image_file a))] else [])
      @ (if show_flag a then [EvShow] else []))"
  by (cases "descriptor_kind a")
     (auto simp: coloratom_def coloratom_body_def run_defs
        split: sum.splits option.splits if_splits)

text \<open>
  C7, as the code has it. With descriptor type \<open>circus\<close> the calls of
  \<^verbatim>\<open>analysis coloratom\<close> are, in order, an initial part of: load the model, construct the
  descriptor, fit it on the one-element list of the given SMILES, construct the colouring,
  explain, then save and show as asked; so \<open>fit\<close> on that list comes before \<open>explain\<close>.
  With \<open>morgan\<close> or \<open>rdkfp\<close> the same holds without the fit: the command makes no
  \<open>fit\<close> call at all.
\<close>

theorem fit_before_explain:
  "(descriptor_kind a = dt_circus \<longrightarrow>
      prefix (new_events w (snd (coloratom env a w)))
        ([EvPickleLoad (model_file a), EvNew ''ChythonCircus'', EvFit [S (smiles a)],
          EvColorAtom, EvExplain (smiles a)]
         @ (if truthy (image_file a) then [EvSavefig (the (image_file a))] else [])
         @ (if show_flag a then [EvShow] else [])))
   \<and> (descriptor_kind a \<noteq> dt_circus \<longrightarrow>
      prefix (new_events w (snd (coloratom env a w)))
        ([EvPickleLoad (model_file a), EvNew ''Fingerprinter'', EvColorAtom,
          EvExplain (smiles a)]
         @ (if truthy (image_file a) then [EvSavefig (the (image_file a))] else [])
         @ (if show_flag a then [EvShow] else []))
      \<and> (\<forall>xs. EvFit xs \<notin> set (new_events w (snd (coloratom env a w)))))"
proof (intro conjI impI)
  assume "descriptor_kind a = dt_circus"
  with coloratom_calls [of w env a]
  show "prefix (new_events w (snd (coloratom env a w)))
        ([EvPickleLoad (model_file a), EvNew ''ChythonCircus'', EvFit [S (smiles a)],
          EvColorAtom, EvExplain (smiles a)]
         @ (if truthy (image_file a) then [EvSavefig (the (image_file a))] else [])
         @ (if show_flag a then [EvShow] else []))"
    by simp
next
  assume k: "descriptor_kind a \<noteq> dt_circus"
  with coloratom_calls [of w env a]
  show p: "prefix (new_events w (snd (coloratom env a w)))
        ([EvPickleLoad (model_file a), EvNew ''Fingerprinter'', EvColorAtom,
          EvExplain (smiles a)]
         @ (if truthy (image_file a) then [EvSavefig (the (image_file a))] else [])
         @ (if show_flag a then [EvShow] else []))"
    by (cases "descriptor_kind a") simp_all
  show "\<forall>xs. EvFit xs \<notin> set (new_events w (snd (coloratom env a w)))"
  proof
    fix xs
    from set_mono_prefix [OF p]
    show "EvFit xs \<notin> set (new_events w (snd (coloratom env a w)))"
      by (auto split: if_splits)
  qed
qed

lemma coloratom_run1:
  "fst (coloratom plain_env coloratom_args1 world1) = Returned
   \<and> new_events world1 (snd (coloratom plain_env coloratom_args1 world1))
       = [EvPickleLoad ''model.pkl'', EvNew ''Fingerprinter'', EvColorAtom, EvExplain ''CCO'',
          EvSavefig ''atoms.png'', EvShow]"
  by code_simp

lemma coloratom_run2:
  "fst (coloratom plain_env coloratom_args2 world1) = Returned
   \<and> new_events world1 (snd (coloratom plain_env coloratom_args2 world1))
       = [EvPickleLoad ''model.pkl'', EvNew ''ChythonCircus'', EvFit [S ''CCO''], EvColorAtom,
          EvExplain ''CCO'', EvSavefig ''atoms.png'', EvShow]"
  by code_simp

theorem fit_before_explain_witness:
  "descriptor_kind coloratom_args2 = dt_circus
   \<and> prefix (new_events world1 (snd (coloratom plain_env coloratom_args2 world1)))
       [EvPickleLoad ''model.pkl'', EvNew ''ChythonCircus'', EvFit [S ''CCO''], EvColorAtom,
        EvExplain ''CCO'', EvSavefig ''atoms.png'', EvShow]
   \<and> descriptor_kind coloratom_args1 \<noteq> dt_circus
   \<and> (\<forall>xs. EvFit xs \<notin> set (new_events world1 (snd (coloratom plain_env coloratom_args1 world1))))"
proof -
  have k: "descriptor_kind coloratom_args2 = dt_circus"
    "descriptor_kind coloratom_args1 \<noteq> dt_circus"
    by (simp_all add: coloratom_args2_def coloratom_args1_def)
  from fit_before_explain [of coloratom_args2 world1 plain_env]
    fit_before_explain [of coloratom_args1 world1 plain_env] k
  show ?thesis
    by (simp add: coloratom_args2_def coloratom_args1_def)
qed

text \<open>
  A \<^verbatim>\<open>coloratom\<close> run with the \<open>morgan\<close> descriptor: it returns, \<open>explain\<close> has been
  called, and no \<open>fit\<close> was.
\<close>

theorem morgan_explained_without_fit:
  "fst (coloratom plain_env coloratom_args1 world1) = Returned
   \<and> new_events world1 (snd (coloratom plain_env coloratom_args1 world1))
       = [EvPickleLoad ''model.pkl'', EvNew ''Fingerprinter'', EvColorAtom, EvExplain ''CCO'',
          EvSavefig ''atoms.png'', EvShow]
   \<and> EvFit [S ''CCO''] \<notin> set (new_events world1 (snd (coloratom plain_env coloratom_args1 world1)))"
  by code_simp

subsection \<open>Failures\<close>






lemma calls_echo: "calls (echo s) []"
  by (simp add: calls_def echo_def)













text \<open>
  The exception of \<^verbatim>\<open>coloratom\<close> at work: the figure cannot be shown, the command fails,
  and the image saved just before is there.
\<close>

lemma coloratom_headless:
  "fst (coloratom headless_env coloratom_args1 world1)
     = ClickException ''Error creating ColorAtom visualization: no display''
   \<and> files (snd (coloratom headless_env coloratom_args1 world1)) ''atoms.png''
       = Some ''figure of CCO''
   \<and> files world1 ''atoms.png'' = None"
  by code_simp






subsection \<open>The argument vector\<close>

text \<open>
  C9. A run of \<^verbatim>\<open>models optimize\<close>, \<^verbatim>\<open>models rebuild\<close> or \<^verbatim>\<open>analysis plot\<close> returns
  normally with \<^verbatim>\<open>sys.argv\<close> bound to the list object it was bound to on entry, and that
  object (like every list object that existed on entry) holds what it held on entry: the
  temporary argument vector is a fresh list, and the appends go to the fresh list.
\<close>

theorem argv_restored:
  assumes "sys_argv w < length (heap w)"
  shows "fst (optimize cf v w) = Returned
       \<and> sys_argv (snd (optimize cf v w)) = sys_argv w
       \<and> argv (snd (optimize cf v w)) = argv w
       \<and> take (length (heap w)) (heap (snd (optimize cf v w))) = heap w
       \<and> fst (rebuild ind outd v w) = Returned
       \<and> sys_argv (snd (rebuild ind outd v w)) = sys_argv w
       \<and> argv (snd (rebuild ind outd v w)) = argv w
       \<and> take (length (heap w)) (heap (snd (rebuild ind outd v w))) = heap w
       \<and> fst (plot a w) = Returned
       \<and> sys_argv (snd (plot a w)) = sys_argv w
       \<and> argv (snd (plot a w)) = argv w
       \<and> take (length (heap w)) (heap (snd (plot a w))) = heap w"
  using assms
  by (simp add: optimize_def optimize_body_def rebuild_def rebuild_body_def
      plot_def plot_body_def action_defs argv_def nth_append)

theorem argv_restored_witness:
  "sys_argv world0 < length (heap world0)
   \<and> fst (optimize ''c.json'' True world0) = Returned
   \<and> argv (snd (optimize ''c.json'' True world0)) = [''doptools'', ''models'', ''optimize'']
   \<and> argv (snd (rebuild ''in'' ''out'' True world0)) = [''doptools'', ''models'', ''optimize'']
   \<and> argv (snd (plot plot_args0 world0)) = [''doptools'', ''models'', ''optimize'']"
proof -
  have h: "sys_argv world0 < length (heap world0)"
    by (simp add: world0_def)
  have a: "argv world0 = [''doptools'', ''models'', ''optimize'']"
    by (simp add: world0_def argv_def)
  show ?thesis
    using h a argv_restored [OF h, of "''c.json''" True "''in''" "''out''" plot_args0]
    by simp
qed

end
